theory Spec2Isabelle
  imports Complex_Main "HOL-Library.AList" "HOL-Library.Char_ord"
    "HOL-Library.List_Lexorder" "HOL-Library.Product_Lexorder"
begin

unbundle bit_operations_syntax

section \<open>The Python runtime the repository relies on\<close>

text \<open>
  Exceptions are values.  Only the three exception classes that the modelled
  paths of the repository can raise are listed.
\<close>

datatype py_error = KeyError string | IndexError | AttributeError

text \<open>
  \<^verbatim>\<open>xs[i]\<close> for a Python int \<open>i\<close>: an index below zero counts from the end of the
  list, and an index outside \<open>-len(xs) .. len(xs)-1\<close> raises \<^verbatim>\<open>IndexError\<close>.
\<close>

definition py_getitem :: "'a list \<Rightarrow> int \<Rightarrow> py_error + 'a" where
  "py_getitem xs i =
     (if 0 \<le> i \<and> i < int (length xs) then Inr (xs ! nat i)
      else if i < 0 \<and> - int (length xs) \<le> i then Inr (xs ! nat (int (length xs) + i))
      else Inl IndexError)"

text \<open>\<^verbatim>\<open>sep.join(parts)\<close>.\<close>

fun join :: "string \<Rightarrow> string list \<Rightarrow> string" where
  "join sep [] = []"
| "join sep [p] = p"
| "join sep (p # q # ps) = p @ sep @ join sep (q # ps)"

text \<open>\<^verbatim>\<open>str(n)\<close> for a Python int.\<close>

fun nat_digits :: "nat \<Rightarrow> string" where
  "nat_digits n =
     (if n < 10 then [''0123456789'' ! n]
      else nat_digits (n div 10) @ [''0123456789'' ! (n mod 10)])"

declare nat_digits.simps [simp del]

definition str_int :: "int \<Rightarrow> string" where
  "str_int i = (if i < 0 then CHR ''-'' # nat_digits (nat (- i)) else nat_digits (nat i))"

subsection \<open>\<^verbatim>\<open>float\<close>\<close>

text \<open>
  A Python \<^verbatim>\<open>float\<close> is an IEEE 754 binary64 value: a finite double, given by
  the real number it denotes, an infinity, or NaN.  (The sign of a zero is not
  kept; no comparison reads it.)  \<^verbatim>\<open>json.loads\<close> produces all four kinds: it
  accepts the tokens \<^verbatim>\<open>NaN\<close>, \<^verbatim>\<open>Infinity\<close> and \<^verbatim>\<open>-Infinity\<close>.
\<close>

datatype pyfloat = Finite real | PosInf | NegInf | NaN

text \<open>
  The comparisons \<^verbatim>\<open><=\<close>, \<^verbatim>\<open><\<close>, \<^verbatim>\<open>>=\<close> and \<^verbatim>\<open>>\<close>: exact on the values,
  and false as soon as one operand is NaN.
\<close>

fun float_le :: "pyfloat \<Rightarrow> pyfloat \<Rightarrow> bool" where
  "float_le NaN y = False"
| "float_le x NaN = False"
| "float_le NegInf y = True"
| "float_le x PosInf = True"
| "float_le (Finite x) (Finite y) = (x \<le> y)"
| "float_le PosInf y = False"
| "float_le x NegInf = False"

fun float_lt :: "pyfloat \<Rightarrow> pyfloat \<Rightarrow> bool" where
  "float_lt NaN y = False"
| "float_lt x NaN = False"
| "float_lt (Finite x) (Finite y) = (x < y)"
| "float_lt PosInf y = False"
| "float_lt x NegInf = False"
| "float_lt NegInf y = True"
| "float_lt x PosInf = True"

definition float_ge :: "pyfloat \<Rightarrow> pyfloat \<Rightarrow> bool" where
  "float_ge x y = float_le y x"

definition float_gt :: "pyfloat \<Rightarrow> pyfloat \<Rightarrow> bool" where
  "float_gt x y = float_lt y x"

text \<open>\<^verbatim>\<open>abs(x)\<close>.\<close>

fun float_abs :: "pyfloat \<Rightarrow> pyfloat" where
  "float_abs (Finite x) = Finite \<bar>x\<bar>"
| "float_abs PosInf = PosInf"
| "float_abs NegInf = PosInf"
| "float_abs NaN = NaN"

text \<open>
  The result of an arithmetic operation is the exact result rounded to the
  nearest double, a tie going to the double with the even significand.  A
  double is \<open>m * 2 ^ e\<close> with \<open>\<bar>m\<bar> < 2 ^ 53\<close> and \<open>-1074 \<le> e \<le> 971\<close>; the
  spacing of the doubles around \<open>a\<close> is \<open>2 ^ e\<close> with
  \<open>e = max \<lfloor>log\<^sub>2 a\<rfloor> (-1022) - 52\<close>.  A magnitude of \<open>2 ^ 1024 - 2 ^ 970\<close> (the
  midpoint between the largest double and \<open>2 ^ 1024\<close>) or more rounds to an
  infinity.
\<close>

definition two_to :: "int \<Rightarrow> real" where
  "two_to e = (if 0 \<le> e then 2 ^ nat e else 1 / 2 ^ nat (- e))"

definition round_half_even :: "real \<Rightarrow> int" where
  "round_half_even q =
     (if q - of_int \<lfloor>q\<rfloor> < 1 / 2 then \<lfloor>q\<rfloor>
      else if q - of_int \<lfloor>q\<rfloor> > 1 / 2 then \<lfloor>q\<rfloor> + 1
      else if even \<lfloor>q\<rfloor> then \<lfloor>q\<rfloor>
      else \<lfloor>q\<rfloor> + 1)"

definition round_double :: "real \<Rightarrow> pyfloat" where
  "round_double x =
     (if x = 0 then Finite 0
      else if \<bar>x\<bar> \<ge> 2 ^ 1024 - 2 ^ 970 then (if x > 0 then PosInf else NegInf)
      else
        (let e = max \<lfloor>log 2 \<bar>x\<bar>\<rfloor> (- 1022) - 52
         in Finite (sgn x * of_int (round_half_even (\<bar>x\<bar> / two_to e)) * two_to e)))"

text \<open>\<^verbatim>\<open>x + y\<close> and \<^verbatim>\<open>x - y\<close>.\<close>

fun float_add :: "pyfloat \<Rightarrow> pyfloat \<Rightarrow> pyfloat" where
  "float_add NaN y = NaN"
| "float_add x NaN = NaN"
| "float_add (Finite x) (Finite y) = round_double (x + y)"
| "float_add PosInf NegInf = NaN"
| "float_add NegInf PosInf = NaN"
| "float_add PosInf y = PosInf"
| "float_add NegInf y = NegInf"
| "float_add x PosInf = PosInf"
| "float_add x NegInf = NegInf"

fun float_neg :: "pyfloat \<Rightarrow> pyfloat" where
  "float_neg (Finite x) = Finite (- x)"
| "float_neg PosInf = NegInf"
| "float_neg NegInf = PosInf"
| "float_neg NaN = NaN"

fun float_sub :: "pyfloat \<Rightarrow> pyfloat \<Rightarrow> pyfloat" where
  "float_sub (Finite x) (Finite y) = round_double (x - y)"
| "float_sub x y = float_add x (float_neg y)"

subsection \<open>\<^verbatim>\<open>hashlib.sha256(data.encode()).hexdigest()\<close>\<close>

text \<open>
  SHA-256 (FIPS 180-4) on 32-bit words, written on \<open>int\<close> with the reduction
  modulo \<open>2 ^ 32\<close> spelled out.  \<open>K256\<close> lists the 64 round constants in
  decimal.  Every string that the repository hashes is the
  output of \<^verbatim>\<open>json.dumps\<close> (pure ASCII, since \<^verbatim>\<open>ensure_ascii\<close> is on) or a
  concatenation of hex digests, so \<^verbatim>\<open>.encode()\<close> maps each character to the
  byte with the same code.
\<close>

definition K256 :: "int list" where
  "K256 = [
   1116352408, 1899447441, 3049323471, 3921009573, 961987163, 1508970993,
   2453635748, 2870763221, 3624381080, 310598401, 607225278, 1426881987,
   1925078388, 2162078206, 2614888103, 3248222580, 3835390401, 4022224774,
   264347078, 604807628, 770255983, 1249150122, 1555081692, 1996064986,
   2554220882, 2821834349, 2952996808, 3210313671, 3336571891, 3584528711,
   113926993, 338241895, 666307205, 773529912, 1294757372, 1396182291,
   1695183700, 1986661051, 2177026350, 2456956037, 2730485921, 2820302411,
   3259730800, 3345764771, 3516065817, 3600352804, 4094571909, 275423344,
   430227734, 506948616, 659060556, 883997877, 958139571, 1322822218,
   1537002063, 1747873779, 1955562222, 2024104815, 2227730452, 2361852424,
   2428436474, 2756734187, 3204031479, 3329325298]"

definition H256 :: "int list" where
  "H256 = [0x6a09e667, 0xbb67ae85, 0x3c6ef372, 0xa54ff53a,
           0x510e527f, 0x9b05688c, 0x1f83d9ab, 0x5be0cd19]"

definition add32 :: "int \<Rightarrow> int \<Rightarrow> int" where
  "add32 x y = (x + y) mod 2 ^ 32"

definition not32 :: "int \<Rightarrow> int" where
  "not32 x = 2 ^ 32 - 1 - x"

definition rotr32 :: "nat \<Rightarrow> int \<Rightarrow> int" where
  "rotr32 n x = x div 2 ^ n + (x mod 2 ^ n) * 2 ^ (32 - n)"

definition sha_ch :: "int \<Rightarrow> int \<Rightarrow> int \<Rightarrow> int" where
  "sha_ch x y z = (x AND y) XOR (not32 x AND z)"

definition sha_maj :: "int \<Rightarrow> int \<Rightarrow> int \<Rightarrow> int" where
  "sha_maj x y z = (x AND y) XOR (x AND z) XOR (y AND z)"

definition big_sigma0 :: "int \<Rightarrow> int" where
  "big_sigma0 x = rotr32 2 x XOR rotr32 13 x XOR rotr32 22 x"

definition big_sigma1 :: "int \<Rightarrow> int" where
  "big_sigma1 x = rotr32 6 x XOR rotr32 11 x XOR rotr32 25 x"

definition small_sigma0 :: "int \<Rightarrow> int" where
  "small_sigma0 x = rotr32 7 x XOR rotr32 18 x XOR x div 2 ^ 3"

definition small_sigma1 :: "int \<Rightarrow> int" where
  "small_sigma1 x = rotr32 17 x XOR rotr32 19 x XOR x div 2 ^ 10"

definition be_word :: "int list \<Rightarrow> int" where
  "be_word bs = foldl (\<lambda>acc b. acc * 256 + b) 0 bs"

fun block_words :: "nat \<Rightarrow> int list \<Rightarrow> int list" where
  "block_words 0 bs = []"
| "block_words (Suc n) bs = be_word (take 4 bs) # block_words n (drop 4 bs)"

fun schedule :: "nat \<Rightarrow> int list \<Rightarrow> int list" where
  "schedule 0 ws = ws"
| "schedule (Suc n) ws =
     schedule n
       (ws @ [add32 (add32 (small_sigma1 (ws ! (length ws - 2))) (ws ! (length ws - 7)))
                    (add32 (small_sigma0 (ws ! (length ws - 15))) (ws ! (length ws - 16)))])"

definition sha_round :: "int list \<Rightarrow> int \<times> int \<Rightarrow> int list" where
  "sha_round st kw =
     (let a = st ! 0; b = st ! 1; c = st ! 2; d = st ! 3;
          e = st ! 4; f = st ! 5; g = st ! 6; h = st ! 7;
          t1 = (h + big_sigma1 e + sha_ch e f g + fst kw + snd kw) mod 2 ^ 32;
          t2 = add32 (big_sigma0 a) (sha_maj a b c)
      in [add32 t1 t2, a, b, c, add32 d t1, e, f, g])"

definition compress :: "int list \<Rightarrow> int list \<Rightarrow> int list" where
  "compress st blk =
     map2 add32 st (foldl sha_round st (zip K256 (schedule 48 (block_words 16 blk))))"

fun chunks64 :: "nat \<Rightarrow> int list \<Rightarrow> int list list" where
  "chunks64 0 bs = []"
| "chunks64 (Suc n) bs = take 64 bs # chunks64 n (drop 64 bs)"

definition sha_pad :: "int list \<Rightarrow> int list" where
  "sha_pad bs =
     (let l = length bs; z = (119 - l mod 64) mod 64
      in bs @ [128] @ replicate z 0
            @ map (\<lambda>i. (8 * int l) div 256 ^ (7 - i) mod 256) [0..<8])"

definition sha256_words :: "int list \<Rightarrow> int list" where
  "sha256_words bs =
     (let p = sha_pad bs in foldl compress H256 (chunks64 (length p div 64) p))"

definition hex_digit :: "int \<Rightarrow> char" where
  "hex_digit n = ''0123456789abcdef'' ! nat n"

definition hex_word :: "int \<Rightarrow> string" where
  "hex_word w = map (\<lambda>i. hex_digit (w div 16 ^ (7 - i) mod 16)) [0..<8]"

definition sha256_hexdigest :: "string \<Rightarrow> string" where
  "sha256_hexdigest s = concat (map hex_word (sha256_words (map of_char s)))"

subsection \<open>\<^verbatim>\<open>json.dumps\<close>\<close>

text \<open>
  JSON-compatible Python values.  A \<^verbatim>\<open>dict\<close> is its list of items in insertion
  order; its keys are strings.  A character stands for a code point below 256.
\<close>

datatype json =
    JNull
  | JBool bool
  | JInt int
  | JFloat pyfloat
  | JString string
  | JArray "json list"
  | JObject "(string \<times> json) list"

text \<open>
  \<^verbatim>\<open>json.encoder.py_encode_basestring_ascii\<close>: the quote and the backslash are
  escaped, the five control characters with a short form get it, and every
  other character outside \<^verbatim>\<open>' '..'~'\<close> becomes \<^verbatim>\<open>\uXXXX\<close>.
\<close>

definition escape_char :: "char \<Rightarrow> string" where
  "escape_char c =
     (if c = CHR 0x22 then [CHR 0x5C, CHR 0x22]
      else if c = CHR 0x5C then [CHR 0x5C, CHR 0x5C]
      else if c = CHR 0x0A then [CHR 0x5C, CHR ''n'']
      else if c = CHR 0x0D then [CHR 0x5C, CHR ''r'']
      else if c = CHR 0x09 then [CHR 0x5C, CHR ''t'']
      else if c = CHR 0x0C then [CHR 0x5C, CHR ''f'']
      else if c = CHR 0x08 then [CHR 0x5C, CHR ''b'']
      else if (of_char c :: nat) < 32 \<or> 126 < (of_char c :: nat)
        then CHR 0x5C # ''u00'' @ [hex_digit (of_char c div 16), hex_digit (of_char c mod 16)]
      else [c])"

definition encode_basestring_ascii :: "string \<Rightarrow> string" where
  "encode_basestring_ascii s = CHR 0x22 # concat (map escape_char s) @ [CHR 0x22]"

text \<open>
  \<^verbatim>\<open>JSONEncoder(sort_keys, separators=(item_separator, key_separator)).encode\<close>.
  With \<^verbatim>\<open>sort_keys\<close> the items of every dict are emitted in the order of
  \<^verbatim>\<open>sorted(dct.items())\<close>.  The text of a float is \<^verbatim>\<open>float.__repr__\<close> (for a
  NaN or an infinity, \<^verbatim>\<open>NaN\<close>, \<^verbatim>\<open>Infinity\<close> or \<^verbatim>\<open>-Infinity\<close>), which is a
  parameter here (\<open>float_repr\<close>): the shortest decimal string that reads back
  as the same binary double is not a function that this development defines.
\<close>

primrec json_encode :: "(pyfloat \<Rightarrow> string) \<Rightarrow> bool \<Rightarrow> string \<Rightarrow> string \<Rightarrow> json \<Rightarrow> string" where
  "json_encode float_repr sort_keys item_separator key_separator JNull = ''null''"
| "json_encode float_repr sort_keys item_separator key_separator (JBool b) =
     (if b then ''true'' else ''false'')"
| "json_encode float_repr sort_keys item_separator key_separator (JInt i) = str_int i"
| "json_encode float_repr sort_keys item_separator key_separator (JFloat x) = float_repr x"
| "json_encode float_repr sort_keys item_separator key_separator (JString s) =
     encode_basestring_ascii s"
| "json_encode float_repr sort_keys item_separator key_separator (JArray vs) =
     ''['' @ join item_separator
               (map (json_encode float_repr sort_keys item_separator key_separator) vs) @ '']''"
| "json_encode float_repr sort_keys item_separator key_separator (JObject kvs) =
     ''{'' @ join item_separator
               (map (\<lambda>(k, s). encode_basestring_ascii k @ key_separator @ s)
                  ((if sort_keys then sort_key fst else id)
                     (map (map_prod id
                        (json_encode float_repr sort_keys item_separator key_separator)) kvs)))
         @ ''}''"

text \<open>
  \<^verbatim>\<open>json.dumps(obj, sort_keys=True)\<close>, as every hashing site of the repository
  calls it: no \<^verbatim>\<open>separators\<close> argument, so the encoder's defaults
  \<^verbatim>\<open>(', ', ': ')\<close> apply.
\<close>

definition json_dumps :: "(pyfloat \<Rightarrow> string) \<Rightarrow> json \<Rightarrow> string" where
  "json_dumps float_repr obj = json_encode float_repr True '', '' '': '' obj"

section \<open>utils/merkle\_tree.py\<close>

text \<open>
  The dataclass \<^verbatim>\<open>MerkleNode\<close> and the class \<^verbatim>\<open>MerkleTree\<close>.  The field
  \<^verbatim>\<open>hash\<close> of a node is \<open>node_hash\<close> and the field \<^verbatim>\<open>root\<close> of a tree is
  \<open>tree_root\<close>; a proof item is the dict \<^verbatim>\<open>{'hash': ..., 'position': ...}\<close>.
\<close>

datatype MerkleNode =
  MerkleNode (node_hash: string) (left: "MerkleNode option") (right: "MerkleNode option")
    (is_leaf: bool) (transaction_data: "json option")

record MerkleTree =
  tree_transactions :: "json list"
  tree_root :: "MerkleNode option"
  leaf_nodes :: "MerkleNode list"

record proof_item =
  item_hash :: string
  position :: string

definition zero_hash :: string where
  "zero_hash = replicate 64 (CHR ''0'')"

definition hash_data :: "string \<Rightarrow> string" where
  "hash_data data = sha256_hexdigest data"

definition create_leaf_node :: "(pyfloat \<Rightarrow> string) \<Rightarrow> json \<Rightarrow> MerkleNode" where
  "create_leaf_node float_repr transaction =
     (let tx_string = json_dumps float_repr transaction;
          tx_hash = hash_data tx_string
      in MerkleNode tx_hash None None True (Some transaction))"

definition create_parent_node :: "MerkleNode \<Rightarrow> MerkleNode option \<Rightarrow> MerkleNode" where
  "create_parent_node l r_opt =
     (let r = (case r_opt of None \<Rightarrow> l | Some r' \<Rightarrow> r');
          combined_hash = node_hash l @ node_hash r;
          parent_hash = hash_data combined_hash
      in MerkleNode parent_hash (Some l) (Some r) False None)"

text \<open>
  The \<^verbatim>\<open>for i in range(0, len(current_level), 2)\<close> loop of \<^verbatim>\<open>_build_tree\<close>: the
  right child is \<^verbatim>\<open>None\<close> when \<open>i + 1\<close> is past the end.
\<close>

fun pair_level :: "MerkleNode list \<Rightarrow> MerkleNode list" where
  "pair_level [] = []"
| "pair_level [l] = [create_parent_node l None]"
| "pair_level (l # r # rest) = create_parent_node l (Some r) # pair_level rest"

lemma length_pair_level: "length (pair_level xs) = (length xs + 1) div 2"
  by (induction xs rule: pair_level.induct) simp_all

text \<open>The \<^verbatim>\<open>while len(current_level) > 1\<close> loop of \<^verbatim>\<open>_build_tree\<close>.\<close>

function reduce_levels :: "MerkleNode list \<Rightarrow> MerkleNode list" where
  "reduce_levels current_level =
     (if length current_level > 1 then reduce_levels (pair_level current_level)
      else current_level)"
  by pat_completeness auto
termination
  by (relation "measure length") (auto simp: length_pair_level)

declare reduce_levels.simps [simp del]

definition build_tree :: "(pyfloat \<Rightarrow> string) \<Rightarrow> MerkleTree \<Rightarrow> MerkleTree" where
  "build_tree float_repr t =
     (if tree_transactions t = []
      then t\<lparr>tree_root := Some (MerkleNode zero_hash None None False None)\<rparr>
      else
        (let leaves = map (create_leaf_node float_repr) (tree_transactions t);
             current_level = reduce_levels leaves
         in t\<lparr>leaf_nodes := leaves, tree_root := Some (current_level ! 0)\<rparr>))"

text \<open>\<^verbatim>\<open>MerkleTree(transactions)\<close>, that is \<^verbatim>\<open>__init__\<close>.\<close>

definition MerkleTree_init :: "(pyfloat \<Rightarrow> string) \<Rightarrow> json list \<Rightarrow> MerkleTree" where
  "MerkleTree_init float_repr txs =
     build_tree float_repr \<lparr>tree_transactions = txs, tree_root = None, leaf_nodes = []\<rparr>"

definition get_root_hash :: "MerkleTree \<Rightarrow> string" where
  "get_root_hash t = (case tree_root t of Some r \<Rightarrow> node_hash r | None \<Rightarrow> zero_hash)"

text \<open>
  The search \<^verbatim>\<open>for i, node in enumerate(current_level): if ...: node_index = i; break\<close>.
\<close>

fun first_index :: "('a \<Rightarrow> bool) \<Rightarrow> 'a list \<Rightarrow> nat option" where
  "first_index P [] = None"
| "first_index P (x # xs) = (if P x then Some 0 else map_option Suc (first_index P xs))"

text \<open>
  The pairing loop inside \<^verbatim>\<open>get_proof\<close>, run on \<^verbatim>\<open>current_level[i:]\<close>: it
  builds the next level (here an odd last node is paired with itself
  explicitly) and replaces \<^verbatim>\<open>current_node\<close> by the parent of the pair that
  holds \<open>node_index\<close>.
\<close>

fun proof_pairs ::
  "MerkleNode list \<Rightarrow> nat \<Rightarrow> nat \<Rightarrow> MerkleNode \<Rightarrow> MerkleNode list \<times> MerkleNode" where
  "proof_pairs [] i node_index current_node = ([], current_node)"
| "proof_pairs [l] i node_index current_node =
     (let parent = create_parent_node l (Some l)
      in ([parent], if i = node_index \<or> i + 1 = node_index then parent else current_node))"
| "proof_pairs (l # r # rest) i node_index current_node =
     (let parent = create_parent_node l (Some r);
          (next_level, node') =
             proof_pairs rest (i + 2) node_index
               (if i = node_index \<or> i + 1 = node_index then parent else current_node)
      in (parent # next_level, node'))"

lemma length_proof_pairs:
  "length (fst (proof_pairs xs i n c)) = (length xs + 1) div 2"
  by (induction xs arbitrary: i c rule: pair_level.induct)
     (simp_all add: Let_def case_prod_beta)

text \<open>The \<^verbatim>\<open>while len(current_level) > 1\<close> loop of \<^verbatim>\<open>get_proof\<close>.\<close>

function proof_loop ::
  "proof_item list \<Rightarrow> MerkleNode \<Rightarrow> MerkleNode list \<Rightarrow> proof_item list" where
  "proof_loop proof_acc current_node current_level =
     (if length current_level > 1 then
        (case first_index (\<lambda>node. node_hash node = node_hash current_node) current_level of
           None \<Rightarrow> proof_acc
         | Some node_index \<Rightarrow>
            (let is_left = (node_index mod 2 = 0);
                 sibling_index = (if is_left then node_index + 1 else node_index - 1);
                 proof_acc' =
                   (if sibling_index < length current_level
                    then proof_acc @
                      [\<lparr>item_hash = node_hash (current_level ! sibling_index),
                        position = (if is_left then ''right'' else ''left'')\<rparr>]
                    else proof_acc);
                 next = proof_pairs current_level 0 node_index current_node
             in proof_loop proof_acc' (snd next) (fst next)))
      else proof_acc)"
  by pat_completeness auto
termination
  by (relation "measure (\<lambda>(p, c, lvl). length lvl)") (auto simp: length_proof_pairs)

declare proof_loop.simps [simp del]

definition get_proof :: "MerkleTree \<Rightarrow> int \<Rightarrow> py_error + proof_item list" where
  "get_proof t transaction_index =
     (if leaf_nodes t = [] \<or> transaction_index \<ge> int (length (leaf_nodes t)) then Inr []
      else
        (case py_getitem (leaf_nodes t) transaction_index of
           Inl e \<Rightarrow> Inl e
         | Inr current_node \<Rightarrow> Inr (proof_loop [] current_node (leaf_nodes t))))"

definition verify_step :: "proof_item \<Rightarrow> string \<Rightarrow> string" where
  "verify_step proof_item current_hash =
     hash_data (if position proof_item = ''left''
                then item_hash proof_item @ current_hash
                else current_hash @ item_hash proof_item)"

definition verify_proof ::
  "(pyfloat \<Rightarrow> string) \<Rightarrow> json \<Rightarrow> proof_item list \<Rightarrow> string \<Rightarrow> bool" where
  "verify_proof float_repr transaction proof_items root_hash =
     (fold verify_step proof_items (hash_data (json_dumps float_repr transaction)) = root_hash)"

definition get_leaf_count :: "MerkleTree \<Rightarrow> nat" where
  "get_leaf_count t = length (leaf_nodes t)"

fun left_depth :: "MerkleNode \<Rightarrow> nat" where
  "left_depth (MerkleNode h l r lf td) = (case l of None \<Rightarrow> 0 | Some n \<Rightarrow> Suc (left_depth n))"

definition get_tree_height :: "MerkleTree \<Rightarrow> nat" where
  "get_tree_height t = (case tree_root t of None \<Rightarrow> 0 | Some r \<Rightarrow> left_depth r)"

definition get_transaction_hashes :: "MerkleTree \<Rightarrow> string list" where
  "get_transaction_hashes t = map node_hash (leaf_nodes t)"

definition find_transaction_index :: "(pyfloat \<Rightarrow> string) \<Rightarrow> MerkleTree \<Rightarrow> json \<Rightarrow> nat option" where
  "find_transaction_index float_repr t transaction =
     (let target_hash = hash_data (json_dumps float_repr transaction)
      in first_index (\<lambda>node. node_hash node = target_hash) (leaf_nodes t))"

section \<open>consensus/block.py\<close>

text \<open>
  The dataclass \<^verbatim>\<open>Block\<close>.  Its attribute \<^verbatim>\<open>hash\<close> is \<open>block_hash\<close>; the
  attribute does not exist before \<^verbatim>\<open>__post_init__\<close> assigns it, so the value
  that \<open>Block_init\<close> puts there first is never read.  \<^verbatim>\<open>timestamp\<close> is a
  \<^verbatim>\<open>float\<close> and is rendered by the \<open>float_repr\<close> parameter of \<open>json_dumps\<close>.
\<close>

record Block =
  block_index :: int
  timestamp :: pyfloat
  transactions :: "json list"
  previous_hash :: string
  validator :: string
  energy_metrics :: "(string \<times> json) list"
  merkle_root :: "string option"
  merkle_tree :: "MerkleTree option"
  block_hash :: string

text \<open>The dict that \<^verbatim>\<open>calculate_hash\<close> serializes.\<close>

definition block_header :: "Block \<Rightarrow> json" where
  "block_header b =
     JObject
       [(''block_index'', JInt (block_index b)),
        (''timestamp'', JFloat (timestamp b)),
        (''merkle_root'', (case merkle_root b of None \<Rightarrow> JNull | Some r \<Rightarrow> JString r)),
        (''previous_hash'', JString (previous_hash b)),
        (''validator'', JString (validator b)),
        (''energy_metrics'', JObject (energy_metrics b))]"

definition calculate_hash :: "(pyfloat \<Rightarrow> string) \<Rightarrow> Block \<Rightarrow> string" where
  "calculate_hash float_repr b =
     (let block_string = json_dumps float_repr (block_header b)
      in hash_data block_string)"

definition post_init :: "(pyfloat \<Rightarrow> string) \<Rightarrow> Block \<Rightarrow> Block" where
  "post_init float_repr b =
     (let t = MerkleTree_init float_repr (transactions b);
          b1 = b\<lparr>merkle_tree := Some t\<rparr>;
          b2 = b1\<lparr>merkle_root := Some (get_root_hash t)\<rparr>
      in b2\<lparr>block_hash := calculate_hash float_repr b2\<rparr>)"

text \<open>
  \<^verbatim>\<open>Block(block_index=..., ..., merkle_root=...)\<close>: the generated \<^verbatim>\<open>__init__\<close>
  stores its arguments (\<^verbatim>\<open>merkle_tree\<close> keeps its default \<^verbatim>\<open>None\<close>) and then
  calls \<^verbatim>\<open>__post_init__\<close>.
\<close>

definition Block_init ::
  "(pyfloat \<Rightarrow> string) \<Rightarrow> int \<Rightarrow> pyfloat \<Rightarrow> json list \<Rightarrow> string \<Rightarrow> string
     \<Rightarrow> (string \<times> json) list \<Rightarrow> string option \<Rightarrow> Block" where
  "Block_init float_repr idx ts txs prev val em mroot =
     post_init float_repr
       \<lparr>block_index = idx, timestamp = ts, transactions = txs, previous_hash = prev,
        validator = val, energy_metrics = em, merkle_root = mroot, merkle_tree = None,
        block_hash = []\<rparr>"

definition get_merkle_proof :: "Block \<Rightarrow> int \<Rightarrow> py_error + proof_item list" where
  "get_merkle_proof b transaction_index =
     (case merkle_tree b of Some t \<Rightarrow> get_proof t transaction_index | None \<Rightarrow> Inr [])"

definition verify_transaction_inclusion ::
  "(pyfloat \<Rightarrow> string) \<Rightarrow> Block \<Rightarrow> json \<Rightarrow> proof_item list \<Rightarrow> bool" where
  "verify_transaction_inclusion float_repr b transaction proof_items =
     (case merkle_tree b of
        Some t \<Rightarrow>
          (case merkle_root b of
             Some r \<Rightarrow> verify_proof float_repr transaction proof_items r
           | None \<Rightarrow> False)
      | None \<Rightarrow> False)"

definition block_transaction_hashes :: "Block \<Rightarrow> string list" where
  "block_transaction_hashes b =
     (case merkle_tree b of Some t \<Rightarrow> get_transaction_hashes t | None \<Rightarrow> [])"

text \<open>
  The wire dictionary.  A field is \<open>None\<close> when the key is absent (for
  \<^verbatim>\<open>merkle_root\<close> also when its value is \<^verbatim>\<open>None\<close>: \<^verbatim>\<open>from_dict\<close> reads it with
  \<^verbatim>\<open>data.get\<close>); a present value has the type the dataclass annotates.
\<close>

record block_dict =
  d_block_index :: "int option"
  d_timestamp :: "pyfloat option"
  d_transactions :: "json list option"
  d_previous_hash :: "string option"
  d_hash :: "string option"
  d_validator :: "string option"
  d_energy_metrics :: "(string \<times> json) list option"
  d_merkle_root :: "string option"

definition to_dict :: "Block \<Rightarrow> block_dict" where
  "to_dict b =
     \<lparr>d_block_index = Some (block_index b),
      d_timestamp = Some (timestamp b),
      d_transactions = Some (transactions b),
      d_previous_hash = Some (previous_hash b),
      d_hash = Some (block_hash b),
      d_validator = Some (validator b),
      d_energy_metrics = Some (energy_metrics b),
      d_merkle_root = merkle_root b\<rparr>"

text \<open>\<^verbatim>\<open>data[key]\<close>: a missing key raises \<^verbatim>\<open>KeyError(key)\<close>.\<close>

definition dict_item :: "string \<Rightarrow> 'a option \<Rightarrow> py_error + 'a" where
  "dict_item key field = (case field of None \<Rightarrow> Inl (KeyError key) | Some v \<Rightarrow> Inr v)"

definition from_dict :: "(pyfloat \<Rightarrow> string) \<Rightarrow> block_dict \<Rightarrow> py_error + Block" where
  "from_dict float_repr data =
     (case dict_item ''block_index'' (d_block_index data) of Inl e \<Rightarrow> Inl e | Inr idx \<Rightarrow>
      case dict_item ''timestamp'' (d_timestamp data) of Inl e \<Rightarrow> Inl e | Inr ts \<Rightarrow>
      case dict_item ''transactions'' (d_transactions data) of Inl e \<Rightarrow> Inl e | Inr txs \<Rightarrow>
      case dict_item ''previous_hash'' (d_previous_hash data) of Inl e \<Rightarrow> Inl e | Inr prev \<Rightarrow>
      case dict_item ''validator'' (d_validator data) of Inl e \<Rightarrow> Inl e | Inr val \<Rightarrow>
      case dict_item ''energy_metrics'' (d_energy_metrics data) of Inl e \<Rightarrow> Inl e | Inr em \<Rightarrow>
        Inr (Block_init float_repr idx ts txs prev val em (d_merkle_root data)))"

subsection \<open>Block objects and \<^verbatim>\<open>==\<close>\<close>

text \<open>
  \<^verbatim>\<open>@dataclass\<close> gives \<^verbatim>\<open>Block\<close> an \<^verbatim>\<open>__eq__\<close> that compares, for two objects of
  the class, the fields \<^verbatim>\<open>block_index\<close>, \<^verbatim>\<open>timestamp\<close>, \<^verbatim>\<open>transactions\<close>,
  \<^verbatim>\<open>previous_hash\<close>, \<^verbatim>\<open>validator\<close>, \<^verbatim>\<open>energy_metrics\<close>, \<^verbatim>\<open>merkle_root\<close> and
  \<^verbatim>\<open>merkle_tree\<close> with \<^verbatim>\<open>==\<close> (\<^verbatim>\<open>hash\<close> is not a field).  The class
  \<^verbatim>\<open>MerkleTree\<close> defines no \<^verbatim>\<open>__eq__\<close>, so \<^verbatim>\<open>==\<close> on two trees is the default of
  \<^verbatim>\<open>object\<close>: true only when both are the same object.

  What \<^verbatim>\<open>==\<close> reads is therefore more than the field values: a block object is
  its field values together with the identity of the \<^verbatim>\<open>MerkleTree\<close> object that
  its \<^verbatim>\<open>merkle_tree\<close> field refers to.  Identities are numbers; \<open>next_id\<close> is
  the number of objects created so far and is the identity of the next one.
  \<^verbatim>\<open>__post_init__\<close> calls \<^verbatim>\<open>MerkleTree(self.transactions)\<close>, which creates one
  object per constructed block.
\<close>

record Block_object =
  attributes :: Block
  tree_id :: nat

definition new_Block ::
  "(pyfloat \<Rightarrow> string) \<Rightarrow> nat \<Rightarrow> int \<Rightarrow> pyfloat \<Rightarrow> json list \<Rightarrow> string \<Rightarrow> string
     \<Rightarrow> (string \<times> json) list \<Rightarrow> string option \<Rightarrow> Block_object \<times> nat" where
  "new_Block float_repr next_id idx ts txs prev val em mroot =
     (\<lparr>attributes = Block_init float_repr idx ts txs prev val em mroot, tree_id = next_id\<rparr>,
      Suc next_id)"

definition from_dict_object ::
  "(pyfloat \<Rightarrow> string) \<Rightarrow> nat \<Rightarrow> block_dict \<Rightarrow> py_error + Block_object \<times> nat" where
  "from_dict_object float_repr next_id data =
     (case dict_item ''block_index'' (d_block_index data) of Inl e \<Rightarrow> Inl e | Inr idx \<Rightarrow>
      case dict_item ''timestamp'' (d_timestamp data) of Inl e \<Rightarrow> Inl e | Inr ts \<Rightarrow>
      case dict_item ''transactions'' (d_transactions data) of Inl e \<Rightarrow> Inl e | Inr txs \<Rightarrow>
      case dict_item ''previous_hash'' (d_previous_hash data) of Inl e \<Rightarrow> Inl e | Inr prev \<Rightarrow>
      case dict_item ''validator'' (d_validator data) of Inl e \<Rightarrow> Inl e | Inr val \<Rightarrow>
      case dict_item ''energy_metrics'' (d_energy_metrics data) of Inl e \<Rightarrow> Inl e | Inr em \<Rightarrow>
        Inr (new_Block float_repr next_id idx ts txs prev val em (d_merkle_root data)))"

text \<open>
  \<^verbatim>\<open>a.merkle_tree == b.merkle_tree\<close>: two \<^verbatim>\<open>None\<close> are equal, two trees are
  equal when they are the same object, and \<^verbatim>\<open>None\<close> is not equal to a tree.
\<close>

definition same_tree :: "Block_object \<Rightarrow> Block_object \<Rightarrow> bool" where
  "same_tree a b =
     (case merkle_tree (attributes a) of
        None \<Rightarrow> merkle_tree (attributes b) = None
      | Some t \<Rightarrow> merkle_tree (attributes b) \<noteq> None \<and> tree_id a = tree_id b)"

text \<open>
  \<^verbatim>\<open>a == b\<close> for two blocks.  The seven fields before \<^verbatim>\<open>merkle_tree\<close> hold
  numbers, strings, lists and dicts, which \<^verbatim>\<open>==\<close> compares by value; this is
  rendered as equality of the modelled values.  (Python's \<^verbatim>\<open>==\<close> also equates
  \<^verbatim>\<open>1\<close> with \<^verbatim>\<open>1.0\<close> and two dicts that differ in the order of their items
  only, and may separate a NaN from itself.  Nothing below rests on these
  seven conjuncts: the results are decided by the last one.)
\<close>

definition dataclass_eq :: "Block_object \<Rightarrow> Block_object \<Rightarrow> bool" where
  "dataclass_eq a b =
     (block_index (attributes a) = block_index (attributes b)
      \<and> timestamp (attributes a) = timestamp (attributes b)
      \<and> transactions (attributes a) = transactions (attributes b)
      \<and> previous_hash (attributes a) = previous_hash (attributes b)
      \<and> validator (attributes a) = validator (attributes b)
      \<and> energy_metrics (attributes a) = energy_metrics (attributes b)
      \<and> merkle_root (attributes a) = merkle_root (attributes b)
      \<and> same_tree a b)"

section \<open>consensus/dpos.py\<close>

text \<open>
  Of \<^verbatim>\<open>BlockchainMetrics\<close> the engine reads \<^verbatim>\<open>all_nodes_metrics\<close> only: a dict
  from node id to that node's metrics dict, of which the numeric entries are
  kept.  Dicts are item lists with distinct keys.
\<close>

record BlockchainMetrics =
  all_nodes_metrics :: "(string \<times> (string \<times> real) list) list"

record DPoS =
  max_validators :: int
  validators :: "(string \<times> real) list"
  delegates :: "string list"
  block_time :: real
  energy_threshold :: real
  metrics :: "BlockchainMetrics option"
  liveness_threshold :: real
  last_delegate_update_time :: real
  delegate_update_interval :: real

definition DPoS_init :: "int \<Rightarrow> BlockchainMetrics option \<Rightarrow> DPoS" where
  "DPoS_init max_vals m =
     \<lparr>max_validators = max_vals, validators = [], delegates = [], block_time = 3,
      energy_threshold = 5.0, metrics = m, liveness_threshold = 60,
      last_delegate_update_time = 0.0, delegate_update_interval = 300\<rparr>"

definition has_key :: "('k \<times> 'v) list \<Rightarrow> 'k \<Rightarrow> bool" where
  "has_key d k = (map_of d k \<noteq> None)"

definition add_validator :: "DPoS \<Rightarrow> string \<Rightarrow> real \<Rightarrow> DPoS \<times> bool" where
  "add_validator d address stake =
     (if int (length (validators d)) \<ge> max_validators d then (d, False)
      else (d\<lparr>validators := AList.update address stake (validators d)\<rparr>, True))"

definition remove_validator :: "DPoS \<Rightarrow> string \<Rightarrow> DPoS \<times> bool" where
  "remove_validator d address =
     (if has_key (validators d) address
      then (d\<lparr>validators := AList.delete address (validators d)\<rparr>, True)
      else (d, False))"

text \<open>\<^verbatim>\<open>xs[:n]\<close> for a Python int \<open>n\<close>.\<close>

definition py_prefix :: "'a list \<Rightarrow> int \<Rightarrow> 'a list" where
  "py_prefix xs n = (if n < 0 then take (nat (int (length xs) + n)) xs else take (nat n) xs)"

text \<open>
  \<^verbatim>\<open>_update_delegates(force_update)\<close>; \<open>current_time\<close> is the value that
  \<^verbatim>\<open>time.time()\<close> returns in the call.
\<close>

definition update_delegates :: "DPoS \<Rightarrow> real \<Rightarrow> bool \<Rightarrow> DPoS" where
  "update_delegates d current_time force_update =
     (if \<not> force_update
         \<and> current_time - last_delegate_update_time d < delegate_update_interval d
      then d
      else
        (let sorted_validators = sort_key (\<lambda>x. (- snd x, fst x)) (validators d)
         in d\<lparr>delegates := py_prefix (map fst sorted_validators) (max_validators d),
              last_delegate_update_time := current_time\<rparr>))"

definition update_stake :: "DPoS \<Rightarrow> real \<Rightarrow> string \<Rightarrow> real \<Rightarrow> DPoS \<times> bool" where
  "update_stake d current_time address new_stake =
     (if \<not> has_key (validators d) address then (d, False)
      else
        (let d1 = d\<lparr>validators := AList.update address new_stake (validators d)\<rparr>
         in (update_delegates d1 current_time True, True)))"

text \<open>
  The liveness test of \<^verbatim>\<open>get_current_validator\<close> for one delegate:
  \<^verbatim>\<open>node_metrics and (now - node_metrics.get('timestamp', 0) < liveness_threshold)\<close>,
  where an absent or empty metrics dict is falsy.
\<close>

definition is_live :: "DPoS \<Rightarrow> BlockchainMetrics \<Rightarrow> real \<Rightarrow> string \<Rightarrow> bool" where
  "is_live d m current_system_time delegate_id =
     (case map_of (all_nodes_metrics m) delegate_id of
        None \<Rightarrow> False
      | Some node_metrics \<Rightarrow>
          node_metrics \<noteq> []
          \<and> current_system_time
               - (case map_of node_metrics ''timestamp'' of None \<Rightarrow> 0 | Some t \<Rightarrow> t)
             < liveness_threshold d)"

text \<open>The loop \<^verbatim>\<open>for delegate_id in self.delegates: if ...: active.append(delegate_id)\<close>.\<close>

fun collect_live :: "(string \<Rightarrow> bool) \<Rightarrow> string list \<Rightarrow> string list \<Rightarrow> string list" where
  "collect_live live [] active = active"
| "collect_live live (delegate_id # rest) active =
     collect_live live rest (if live delegate_id then active @ [delegate_id] else active)"

definition get_current_validator :: "DPoS \<Rightarrow> real \<Rightarrow> int \<Rightarrow> string option" where
  "get_current_validator d current_system_time reference_block_index =
     (if delegates d = [] then None
      else
        (let active_and_live_delegates =
               (case metrics d of
                  Some m \<Rightarrow> collect_live (is_live d m current_system_time) (delegates d) []
                | None \<Rightarrow> delegates d);
             active_sorted = sort active_and_live_delegates
         in if active_sorted = [] then None
            else
              (let expected_validator_slot =
                     (reference_block_index + 1) mod int (length active_sorted)
               in Some (active_sorted ! nat expected_validator_slot))))"

text \<open>
  \<^verbatim>\<open>is_time_to_propose_block\<close>; \<open>now\<close> is the value that \<^verbatim>\<open>time.time()\<close>
  returns in the call.  The clock and the fields \<^verbatim>\<open>block_time\<close> and
  \<^verbatim>\<open>energy_threshold\<close>, which only \<^verbatim>\<open>__init__\<close> and \<^verbatim>\<open>adjust_block_time\<close>
  assign, are finite numbers; a block's timestamp is whatever \<^verbatim>\<open>float\<close> the
  sender put on the wire.
\<close>

definition is_time_to_propose_block :: "DPoS \<Rightarrow> real \<Rightarrow> pyfloat \<Rightarrow> bool" where
  "is_time_to_propose_block d now last_block_timestamp =
     float_ge (Finite now) (float_add last_block_timestamp (Finite (block_time d)))"

text \<open>
  \<^verbatim>\<open>_validate_merkle_tree\<close>.  The performance measurement in it is enclosed in
  its own \<^verbatim>\<open>try\<close>/\<^verbatim>\<open>except\<close> and its results are dropped; it has no part in
  the value returned.
\<close>

definition validate_merkle_tree :: "Block \<Rightarrow> bool" where
  "validate_merkle_tree b =
     (if merkle_root b = None \<or> merkle_root b = Some [] then False
      else
        (case merkle_tree b of
           Some t \<Rightarrow>
             (let expected_root = get_root_hash t
              in if merkle_root b \<noteq> Some expected_root then False
                 else if length (block_transaction_hashes b) \<noteq> length (transactions b)
                   then False
                 else True)
         | None \<Rightarrow> False))"

text \<open>
  \<^verbatim>\<open>validate_block\<close>.  The clock is read twice: \<open>now_select\<close> inside
  \<^verbatim>\<open>get_current_validator\<close> and \<open>current_time\<close> for the freshness window.
  The block's timestamp and the arguments \<^verbatim>\<open>power_usage\<close>,
  \<^verbatim>\<open>previous_block_timestamp\<close> and \<^verbatim>\<open>sync_tolerance\<close> are floats, and the
  three tests on them are float comparisons of float differences.
\<close>

definition validate_block ::
  "DPoS \<Rightarrow> real \<Rightarrow> real \<Rightarrow> Block \<Rightarrow> pyfloat \<Rightarrow> pyfloat \<Rightarrow> int \<Rightarrow> pyfloat \<Rightarrow> bool" where
  "validate_block d now_select current_time b power_usage previous_block_timestamp
       previous_block_index sync_tolerance =
     (if validator b \<notin> set (delegates d) then False
      else if Some (validator b) \<noteq> get_current_validator d now_select previous_block_index
        then False
      else if float_le (timestamp b) (float_sub previous_block_timestamp sync_tolerance)
        then False
      else if block_index b \<le> previous_block_index then False
      else if float_gt (float_abs (float_sub (Finite current_time) (timestamp b)))
                 (Finite (block_time d))
        then False
      else if \<not> validate_merkle_tree b then False
      else if float_gt power_usage (Finite (energy_threshold d)) then False
      else True)"

definition adjust_block_time :: "DPoS \<Rightarrow> real \<Rightarrow> DPoS" where
  "adjust_block_time d network_load =
     (if network_load > 0.8 then d\<lparr>block_time := max 1 (block_time d - 0.5)\<rparr>
      else if network_load < 0.3 then d\<lparr>block_time := min 5 (block_time d + 0.5)\<rparr>
      else d)"

section \<open>main.py: the proposer duty\<close>

text \<open>\<^verbatim>\<open>str.strip()\<close> and \<^verbatim>\<open>str.lower()\<close> on code points below 256.\<close>

definition py_isspace :: "char \<Rightarrow> bool" where
  "py_isspace c =
     ((of_char c :: nat) \<in> {9, 10, 11, 12, 13, 28, 29, 30, 31, 32, 133, 160})"

definition py_strip :: "string \<Rightarrow> string" where
  "py_strip s = rev (dropWhile py_isspace (rev (dropWhile py_isspace s)))"

definition py_lower_char :: "char \<Rightarrow> char" where
  "py_lower_char c =
     (let n = (of_char c :: nat)
      in if (65 \<le> n \<and> n \<le> 90) \<or> (192 \<le> n \<and> n \<le> 222 \<and> n \<noteq> 215)
         then char_of (n + 32) else c)"

definition py_lower :: "string \<Rightarrow> string" where
  "py_lower s = map py_lower_char s"

text \<open>
  What \<^verbatim>\<open>EnergyMonitor.get_system_metrics()\<close> returns, and the thresholds of
  \<^verbatim>\<open>RASPBERRY_PI_SETTINGS\<close> that \<^verbatim>\<open>_check_system_health\<close> compares it with.
\<close>

record system_metrics =
  cpu_percent :: real
  memory_percent :: real
  temperature :: real
  power_usage :: real

definition check_system_health :: "system_metrics \<Rightarrow> bool" where
  "check_system_health m =
     (if temperature m > 80 then False
      else if cpu_percent m > 70 then False
      else if memory_percent m > 80 then False
      else True)"

text \<open>
  The node's state, as far as the proposer duty reads or writes it.  The
  broker and the store are outside the repository's core: what is published
  and what is saved is logged in \<open>published_blocks\<close> and \<open>saved_blocks\<close>.
\<close>

record BlockchainNode =
  node_id :: string
  dpos :: DPoS
  blocks :: "Block list"
  pending_transactions :: "json list"
  published_blocks :: "block_dict list"
  saved_blocks :: "Block list"

text \<open>
  What one pass of the loop body reads from outside: the clock at each
  \<^verbatim>\<open>time.time()\<close> call, and the two sensor readings.
\<close>

record step_env =
  now_select :: real
  health_reading :: system_metrics
  now_propose :: real
  start_time :: real
  now_block :: real
  block_reading :: system_metrics
  now_sealed :: real

definition seal_block :: "(pyfloat \<Rightarrow> string) \<Rightarrow> BlockchainNode \<Rightarrow> step_env \<Rightarrow> string \<Rightarrow> BlockchainNode" where
  "seal_block float_repr n env current_validator =
     (let transactions_for_block = take 10 (pending_transactions n);
          tree = MerkleTree_init float_repr transactions_for_block;
          new_block = Block_init float_repr
            (int (length (blocks n)))
            (Finite (now_block env))
            transactions_for_block
            (if blocks n = [] then zero_hash else block_hash (last (blocks n)))
            current_validator
            [(''cpu_percent'', JFloat (Finite (cpu_percent (block_reading env)))),
             (''memory_percent'', JFloat (Finite (memory_percent (block_reading env)))),
             (''temperature'', JFloat (Finite (temperature (block_reading env)))),
             (''power_usage'', JFloat (Finite (power_usage (block_reading env)))),
             (''consensus_time'', JFloat (float_sub (Finite (now_sealed env)) (Finite (start_time env)))),
             (''merkle_tree_nodes'', JInt (int (get_leaf_count tree))),
             (''merkle_tree_height'', JInt (int (get_tree_height tree)))]
            None
      in n\<lparr>published_blocks := published_blocks n @ [to_dict new_block],
           blocks := blocks n @ [new_block],
           saved_blocks := saved_blocks n @ [new_block],
           pending_transactions := drop 10 (pending_transactions n)\<rparr>)"

text \<open>
  One pass through the body of \<^verbatim>\<open>while True\<close> in
  \<^verbatim>\<open>_process_transactions_periodically\<close>, up to the \<^verbatim>\<open>await asyncio.sleep(1)\<close>
  that ends it.  \<open>Inr\<close> is the state at that sleep; \<open>Inl\<close> is an exception
  that leaves the loop (no \<^verbatim>\<open>try\<close> encloses the body).  The debug line
  \<^verbatim>\<open>print(f"... {current_validator.strip().lower()}")\<close> calls \<^verbatim>\<open>strip\<close> on
  the value that \<^verbatim>\<open>get_current_validator\<close> returned.
\<close>

definition process_transactions_step ::
  "(pyfloat \<Rightarrow> string) \<Rightarrow> BlockchainNode \<Rightarrow> step_env \<Rightarrow> py_error + BlockchainNode" where
  "process_transactions_step float_repr n env =
     (let previous_block_timestamp = (if blocks n = [] then Finite 0.0 else timestamp (last (blocks n)));
          previous_block_index = (if blocks n = [] then - 1 else block_index (last (blocks n)));
          current_validator = get_current_validator (dpos n) (now_select env) previous_block_index
      in case current_validator of
           None \<Rightarrow> Inl AttributeError
         | Some cv \<Rightarrow>
             if py_lower (py_strip cv) \<noteq> py_lower (py_strip (node_id n)) then Inr n
             else if \<not> check_system_health (health_reading env) then Inr n
             else if \<not> is_time_to_propose_block (dpos n) (now_propose env)
                        previous_block_timestamp then Inr n
             else if pending_transactions n \<noteq> [] then Inr (seal_block float_repr n env cv)
             else Inr n)"

section \<open>Example inputs\<close>

text \<open>
  The text of a float in \<^verbatim>\<open>json.dumps\<close> on the doubles that hold a whole number
  of magnitude below \<open>10 ^ 16\<close> (the decimal integer followed by \<^verbatim>\<open>.0\<close>) and
  on the three values that are not finite.  It stands for \<open>float_repr\<close> in the
  closed examples, whose finite floats are whole numbers.
\<close>

definition repr_whole :: "pyfloat \<Rightarrow> string" where
  "repr_whole x =
     (case x of
        Finite r \<Rightarrow> str_int \<lfloor>r\<rfloor> @ ''.0''
      | PosInf \<Rightarrow> ''Infinity''
      | NegInf \<Rightarrow> ''-Infinity''
      | NaN \<Rightarrow> ''NaN'')"

text \<open>The transactions \<^verbatim>\<open>{"i": k}\<close> of the specification's scenarios.\<close>

definition tx_i :: "int \<Rightarrow> json" where
  "tx_i k = JObject [(''i'', JInt k)]"

text \<open>
  A wire dictionary whose stored \<^verbatim>\<open>merkle_root\<close> (64 zeros) is not the root of
  its one transaction.
\<close>

definition tampered_dict :: block_dict where
  "tampered_dict =
     \<lparr>d_block_index = Some 1, d_timestamp = Some (Finite 10), d_transactions = Some [tx_i 0],
      d_previous_hash = Some zero_hash, d_hash = None, d_validator = Some ''a'',
      d_energy_metrics = Some [], d_merkle_root = Some zero_hash\<rparr>"

text \<open>
  The roster of the specification's scenario S4: validators \<^verbatim>\<open>a\<close>, \<^verbatim>\<open>b\<close>, \<^verbatim>\<open>c\<close>
  with stake 1000 each, added through \<^verbatim>\<open>add_validator\<close>, and the delegates
  computed by a forced \<^verbatim>\<open>_update_delegates\<close> at time 100.  \<open>seen_at t\<close> is
  a liveness view in which all three were last seen at time \<open>t\<close>.
\<close>

definition seen_at :: "real \<Rightarrow> BlockchainMetrics" where
  "seen_at t =
     \<lparr>all_nodes_metrics =
        [(''a'', [(''timestamp'', t)]), (''b'', [(''timestamp'', t)]),
         (''c'', [(''timestamp'', t)])]\<rparr>"

definition roster_abc :: "BlockchainMetrics option \<Rightarrow> DPoS" where
  "roster_abc m =
     update_delegates
       (fst (add_validator (fst (add_validator (fst (add_validator (DPoS_init 21 m)
          ''c'' 1000)) ''a'' 1000)) ''b'' 1000))
       100 True"

text \<open>
  A block that \<^verbatim>\<open>b\<close> seals at time 105 on top of a block with index 0 and
  timestamp 100.
\<close>

definition block_b :: Block where
  "block_b = Block_init repr_whole 1 (Finite 105) [tx_i 0] zero_hash ''b'' [] None"

text \<open>
  The same block with the timestamp NaN, as \<^verbatim>\<open>from_dict\<close> builds it from a
  message whose \<^verbatim>\<open>timestamp\<close> is the JSON token \<^verbatim>\<open>NaN\<close>.
\<close>

definition nan_block :: Block where
  "nan_block = Block_init repr_whole 1 NaN [tx_i 0] zero_hash ''b'' [] None"

text \<open>
  A node whose delegates were all last seen at time 100, and the readings of
  a pass of the proposer loop at time 1000, long after the liveness threshold
  of 60 seconds.
\<close>

definition stale_node :: BlockchainNode where
  "stale_node =
     \<lparr>node_id = ''a'', dpos = roster_abc (Some (seen_at 100)), blocks = [],
      pending_transactions = [tx_i 0], published_blocks = [], saved_blocks = []\<rparr>"

definition calm :: system_metrics where
  "calm = \<lparr>cpu_percent = 10, memory_percent = 10, temperature = 40, power_usage = 1\<rparr>"

definition late_env :: step_env where
  "late_env =
     \<lparr>now_select = 1000, health_reading = calm, now_propose = 1000, start_time = 1000,
      now_block = 1000, block_reading = calm, now_sealed = 1000\<rparr>"

section \<open>The specification's description of canonical JSON\<close>

text \<open>
  Following the specification's words: canonical JSON has the object keys
  sorted lexicographically at every nesting level and no insignificant
  whitespace.  \<open>sort_keys_deep\<close> is the value with the items of every object
  in key order, \<open>keys_sorted\<close> says that every object of a value has its
  items in key order, and \<open>spec_canonical_json\<close> is the text with sorted keys
  and the separators \<^verbatim>\<open>,\<close> and \<^verbatim>\<open>:\<close> without a space.
\<close>

primrec sort_keys_deep :: "json \<Rightarrow> json" where
  "sort_keys_deep JNull = JNull"
| "sort_keys_deep (JBool b) = JBool b"
| "sort_keys_deep (JInt i) = JInt i"
| "sort_keys_deep (JFloat x) = JFloat x"
| "sort_keys_deep (JString s) = JString s"
| "sort_keys_deep (JArray vs) = JArray (map sort_keys_deep vs)"
| "sort_keys_deep (JObject kvs) =
     JObject (sort_key fst (map (map_prod id sort_keys_deep) kvs))"

fun keys_sorted :: "json \<Rightarrow> bool" where
  "keys_sorted (JArray vs) = list_all keys_sorted vs"
| "keys_sorted (JObject kvs) =
     (sorted (map fst kvs) \<and> list_all (\<lambda>kv. keys_sorted (snd kv)) kvs)"
| "keys_sorted _ = True"

definition spec_canonical_json :: "(pyfloat \<Rightarrow> string) \<Rightarrow> json \<Rightarrow> string" where
  "spec_canonical_json float_repr v = json_encode float_repr True '','' '':'' v"

section \<open>The specification's description of leader selection\<close>

text \<open>
  Following the specification's words (\<open>current_validator\<close>, steps 2 and 3):
  \<open>active\<close> is the list of the delegates that are live, all delegates when
  the liveness view is absent, sorted ascending by node id.
\<close>

definition spec_live_delegates :: "DPoS \<Rightarrow> real \<Rightarrow> string list" where
  "spec_live_delegates d now =
     (case metrics d of
        None \<Rightarrow> delegates d
      | Some m \<Rightarrow> filter (is_live d m now) (delegates d))"

definition spec_active :: "DPoS \<Rightarrow> real \<Rightarrow> string list" where
  "spec_active d now = sort (spec_live_delegates d now)"

section \<open>The library models agree with the library\<close>

lemma sha256_abc:
  "sha256_hexdigest ''abc'' =
     ''ba7816bf8f01cfea414140de5dae2223b00361a396177a9cb410ff61f20015ad''"
  by code_simp

lemma leaf_hash_0:
  "hash_data (json_dumps fr (tx_i 0)) =
     ''8f5bf818feb884eed8d7769f8e868044ad904f2fc936d54215b09f216ccfe644''"
  by code_simp

lemma leaf_hash_1:
  "hash_data (json_dumps fr (tx_i 1)) =
     ''fbd273575f571ac4eea3f9259512808a93e6dd21577d23b771ef10254c5ea759''"
  by code_simp

lemma leaf_hash_2:
  "hash_data (json_dumps fr (tx_i 2)) =
     ''e127b9bed447d67c502646e24c6dfc31e68e5e39794d4f19039037b4588d2964''"
  by code_simp

lemma inner_hash_01:
  "hash_data (''8f5bf818feb884eed8d7769f8e868044ad904f2fc936d54215b09f216ccfe644'' @
              ''fbd273575f571ac4eea3f9259512808a93e6dd21577d23b771ef10254c5ea759'') =
     ''7762548f35d0953b23c48e605b9e4314eea59d07a07442aa9fac2eb52a213c86''"
  by code_simp

lemma inner_hash_22:
  "hash_data (''e127b9bed447d67c502646e24c6dfc31e68e5e39794d4f19039037b4588d2964'' @
              ''e127b9bed447d67c502646e24c6dfc31e68e5e39794d4f19039037b4588d2964'') =
     ''fdd8eb7d34f407dcded22dae8ccb23c602b4bd44eec1efdbe546884d3ec55ac8''"
  by code_simp

lemma root_hash_012:
  "hash_data (''7762548f35d0953b23c48e605b9e4314eea59d07a07442aa9fac2eb52a213c86'' @
              ''fdd8eb7d34f407dcded22dae8ccb23c602b4bd44eec1efdbe546884d3ec55ac8'') =
     ''ce04db493349ac4cf83fb5fccd54ffd19bbeb367f9629824ed22ef742ed15fba''"
  by code_simp

lemma unpaired_hash_012:
  "hash_data (''7762548f35d0953b23c48e605b9e4314eea59d07a07442aa9fac2eb52a213c86'' @
              ''e127b9bed447d67c502646e24c6dfc31e68e5e39794d4f19039037b4588d2964'') =
     ''79a4def1e72dd78f5c0449b3b002324d55c3f5393b4a68f5023f7545a1a6ca28''"
  by code_simp

lemmas example_hashes =
  leaf_hash_0 leaf_hash_1 leaf_hash_2 inner_hash_01 [simplified] inner_hash_22 [simplified]
  root_hash_012 [simplified] unpaired_hash_012 [simplified]

lemma compact_leaf_hash_0:
  "hash_data (spec_canonical_json fr (tx_i 0)) =
     ''e9f74e715a1806aa651489dcf176e77013b3c851dbc114cc9c24f2fe9d411d65''"
  by code_simp

lemma dumps_ba:
  "json_dumps repr_whole (JObject [(''b'', JInt 1), (''a'', JInt 2)]) =
     ''{'' @ [CHR 0x22] @ ''a'' @ [CHR 0x22] @ '': 2, '' @ [CHR 0x22] @ ''b'' @ [CHR 0x22]
       @ '': 1}''"
  by code_simp

lemma canonical_ba:
  "spec_canonical_json repr_whole (JObject [(''b'', JInt 1), (''a'', JInt 2)]) =
     ''{'' @ [CHR 0x22] @ ''a'' @ [CHR 0x22] @ '':2,'' @ [CHR 0x22] @ ''b'' @ [CHR 0x22]
       @ '':1}''"
  by code_simp

lemma zero_hash_literal:
  "zero_hash = ''0000000000000000000000000000000000000000000000000000000000000000''"
  by code_simp

section \<open>Merkle proofs\<close>

lemma leaf_nodes_init:
  "leaf_nodes (MerkleTree_init fr txs) = map (create_leaf_node fr) txs"
  by (simp add: MerkleTree_init_def build_tree_def Let_def)

text \<open>
  Claim C9, as amended.  \<^verbatim>\<open>get_proof\<close> returns the empty list for every index,
  negative ones included, when the transaction list is empty, and for every
  index at or past the end of the transaction list.  The guard of
  \<^verbatim>\<open>get_proof\<close> tests for the empty list and for the upper bound only.
\<close>

theorem get_proof_past_end:
  "txs = [] \<or> int (length txs) \<le> i \<Longrightarrow> get_proof (MerkleTree_init fr txs) i = Inr []"
  by (auto simp: get_proof_def leaf_nodes_init)

theorem get_proof_past_end_witness:
  "get_proof (MerkleTree_init repr_whole []) (- 1) = Inr []
   \<and> int (length [tx_i 0, tx_i 1]) \<le> 2
   \<and> get_proof (MerkleTree_init repr_whole [tx_i 0, tx_i 1]) 2 = Inr []"
  using get_proof_past_end [of "[]" "- 1" repr_whole]
    get_proof_past_end [of "[tx_i 0, tx_i 1]" 2 repr_whole]
  by simp

text \<open>
  Claim C9 as stated fails below zero: for the two transactions \<^verbatim>\<open>{"i": 0}\<close>
  and \<^verbatim>\<open>{"i": 1}\<close> the index \<open>-1\<close> selects the last leaf and yields its
  one-step proof, and the index \<open>-3\<close> raises \<^verbatim>\<open>IndexError\<close>.
\<close>

theorem get_proof_negative_index_counterexample:
  "get_proof (MerkleTree_init repr_whole [tx_i 0, tx_i 1]) (- 1) =
     Inr [\<lparr>item_hash = ''8f5bf818feb884eed8d7769f8e868044ad904f2fc936d54215b09f216ccfe644'',
           position = ''left''\<rparr>]
   \<and> get_proof (MerkleTree_init repr_whole [tx_i 0, tx_i 1]) (- 1) \<noteq> Inr []
   \<and> get_proof (MerkleTree_init repr_whole [tx_i 0, tx_i 1]) (- 3) = Inl IndexError"
  by (simp add: get_proof_def leaf_nodes_init py_getitem_def create_leaf_node_def
        proof_loop.simps leaf_hash_0 leaf_hash_1 Let_def)

section \<open>The block-time window\<close>

lemma adjust_block_time_bounds:
  "1 \<le> block_time d \<and> block_time d \<le> 5 \<Longrightarrow>
   1 \<le> block_time (adjust_block_time d load) \<and> block_time (adjust_block_time d load) \<le> 5"
  by (auto simp: adjust_block_time_def)

lemma foldl_adjust_bounds:
  "1 \<le> block_time d \<and> block_time d \<le> 5 \<Longrightarrow>
   1 \<le> block_time (foldl adjust_block_time d loads) \<and>
   block_time (foldl adjust_block_time d loads) \<le> 5"
proof (induction loads arbitrary: d)
  case Nil
  then show ?case by simp
next
  case (Cons l ls)
  have "1 \<le> block_time (adjust_block_time d l) \<and> block_time (adjust_block_time d l) \<le> 5"
    using Cons.prems by (rule adjust_block_time_bounds)
  from Cons.IH[OF this] show ?case by simp
qed

text \<open>
  Claim C10.  A freshly constructed engine has \<open>block_time = 3\<close>; after any
  sequence of \<^verbatim>\<open>adjust_block_time\<close> calls, whatever the loads, \<open>block_time\<close>
  lies in the closed interval from 1 to 5.
\<close>

theorem block_time_invariant:
  "1 \<le> block_time (foldl adjust_block_time (DPoS_init mv m) loads) \<and>
   block_time (foldl adjust_block_time (DPoS_init mv m) loads) \<le> 5"
  by (rule foldl_adjust_bounds) (simp add: DPoS_init_def)

section \<open>Proofs on levels with an even number of nodes\<close>

lemma first_index_Some:
  "first_index P xs = Some i \<Longrightarrow> i < length xs \<and> P (xs ! i)"
  by (induction xs arbitrary: i) (auto split: if_splits)

lemma first_index_exists:
  "\<exists>x\<in>set xs. P x \<Longrightarrow> \<exists>i. first_index P xs = Some i"
  by (induction xs) auto

lemma proof_pairs_level:
  "even (length xs) \<Longrightarrow> fst (proof_pairs xs i n c) = pair_level xs"
  by (induction xs arbitrary: i c rule: pair_level.induct)
     (simp_all add: Let_def case_prod_beta)

lemma proof_pairs_passed:
  "n < i \<Longrightarrow> snd (proof_pairs xs i n c) = c"
  by (induction xs arbitrary: i c rule: pair_level.induct)
     (simp_all add: Let_def case_prod_beta)

lemma proof_pairs_parent:
  "even (length xs) \<Longrightarrow> i \<le> n \<Longrightarrow> n < i + length xs \<Longrightarrow>
   snd (proof_pairs xs i n c) = pair_level xs ! ((n - i) div 2)"
proof (induction xs arbitrary: i c rule: pair_level.induct)
  case 1
  then show ?case by simp
next
  case (2 l)
  then show ?case by simp
next
  case (3 l r rest)
  show ?case
  proof (cases "i = n \<or> i + 1 = n")
    case True
    then have "(n - i) div 2 = 0" by auto
    with True show ?thesis
      by (auto simp: Let_def case_prod_beta proof_pairs_passed)
  next
    case False
    with "3.prems" have ge: "i + 2 \<le> n" by simp
    then have d: "(n - i) div 2 = Suc ((n - (i + 2)) div 2)" by presburger
    have "snd (proof_pairs rest (i + 2) n c) = pair_level rest ! ((n - (i + 2)) div 2)"
      using "3.prems" ge by (intro "3.IH") auto
    with False d show ?thesis
      by (simp add: Let_def case_prod_beta)
  qed
qed

lemma pair_level_hash:
  "even (length xs) \<Longrightarrow> k < length xs div 2 \<Longrightarrow>
   node_hash (pair_level xs ! k) =
     hash_data (node_hash (xs ! (2 * k)) @ node_hash (xs ! (2 * k + 1)))"
proof (induction xs arbitrary: k rule: pair_level.induct)
  case (3 l r rest)
  then show ?case by (cases k) (simp_all add: create_parent_node_def)
qed simp_all

lemma reduce_levels_single: "length xs = 1 \<Longrightarrow> reduce_levels xs = xs"
  by (simp add: reduce_levels.simps)

lemma reduce_levels_step: "1 < length xs \<Longrightarrow> reduce_levels xs = reduce_levels (pair_level xs)"
  by (subst reduce_levels.simps) simp

lemma proof_loop_verifies:
  "length lvl = 2 ^ j \<Longrightarrow> \<exists>n\<in>set lvl. node_hash n = node_hash cur \<Longrightarrow>
   \<exists>items. proof_loop acc cur lvl = acc @ items
      \<and> fold verify_step items (node_hash cur) = node_hash (reduce_levels lvl ! 0)"
proof (induction j arbitrary: lvl cur acc)
  case 0
  then obtain x where lvl: "lvl = [x]" by (cases lvl) auto
  with 0 have "node_hash x = node_hash cur" by simp
  with lvl show ?case
    by (simp add: proof_loop.simps reduce_levels.simps)
next
  case (Suc j)
  let ?P = "\<lambda>node. node_hash node = node_hash cur"
  have len: "length lvl = 2 * 2 ^ j" using Suc.prems(1) by simp
  then have ev: "even (length lvl)" by simp
  have "(1::nat) \<le> 2 ^ j" by simp
  with len have gt: "1 < length lvl" by linarith
  from first_index_exists [of lvl ?P] Suc.prems(2)
  obtain ni where ni: "first_index ?P lvl = Some ni" by auto
  from first_index_Some [OF ni] have ni_lt: "ni < length lvl"
    and ni_hash: "node_hash (lvl ! ni) = node_hash cur" by auto
  define sib where "sib = (if ni mod 2 = 0 then ni + 1 else ni - 1)"
  define item where "item = \<lparr>item_hash = node_hash (lvl ! sib),
        position = (if ni mod 2 = 0 then ''right'' else ''left'')\<rparr>"
  define cur' where "cur' = snd (proof_pairs lvl 0 ni cur)"
  have sib_lt: "sib < length lvl"
    using ni_lt ev unfolding sib_def by (auto elim!: evenE)
  have lvl': "fst (proof_pairs lvl 0 ni cur) = pair_level lvl"
    using ev by (rule proof_pairs_level)
  have cur'_eq: "cur' = pair_level lvl ! (ni div 2)"
    unfolding cur'_def using proof_pairs_parent [OF ev, of 0 ni cur] ni_lt by simp
  have half: "ni div 2 < length lvl div 2" using ni_lt ev by auto
  have cur'_hash: "node_hash cur' = verify_step item (node_hash cur)"
  proof (cases "ni mod 2 = 0")
    case True
    then have "2 * (ni div 2) = ni" by presburger
    with True show ?thesis
      unfolding cur'_eq pair_level_hash [OF ev half]
      by (simp add: verify_step_def item_def sib_def ni_hash)
  next
    case False
    then have "2 * (ni div 2) + 1 = ni" "2 * (ni div 2) = ni - 1" by presburger+
    with False show ?thesis
      unfolding cur'_eq pair_level_hash [OF ev half]
      by (simp add: verify_step_def item_def sib_def ni_hash)
  qed
  have step: "proof_loop acc cur lvl = proof_loop (acc @ [item]) cur' (pair_level lvl)"
    using gt ni sib_lt
    by (subst proof_loop.simps) (simp add: Let_def sib_def item_def cur'_def lvl')
  have len': "length (pair_level lvl) = 2 ^ j"
    using len by (simp add: length_pair_level)
  have mem: "\<exists>n\<in>set (pair_level lvl). node_hash n = node_hash cur'"
    unfolding cur'_eq using half len' len by (auto intro!: bexI [of _ "pair_level lvl ! (ni div 2)"])
  from Suc.IH [OF len' mem, of "acc @ [item]"]
  obtain items where items: "proof_loop (acc @ [item]) cur' (pair_level lvl) = (acc @ [item]) @ items"
    and fold: "fold verify_step items (node_hash cur') = node_hash (reduce_levels (pair_level lvl) ! 0)"
    by blast
  have "proof_loop acc cur lvl = acc @ (item # items)"
    using step items by simp
  moreover have "fold verify_step (item # items) (node_hash cur) = node_hash (reduce_levels lvl ! 0)"
    using fold cur'_hash reduce_levels_step [OF gt] by simp
  ultimately show ?case by blast
qed

text \<open>
  On a transaction list whose length is a power of two no level is odd, and
  the proof that \<^verbatim>\<open>get_proof\<close> generates for any index verifies against the
  root.  (The search by hash may settle on an earlier node with the same hash;
  the path from that node is a path to the same root.)
\<close>

lemma power_of_two_proofs_verify:
  assumes "length txs = 2 ^ k" and "i < length txs"
  shows "\<exists>p. get_proof (MerkleTree_init fr txs) (int i) = Inr p
           \<and> verify_proof fr (txs ! i) p (get_root_hash (MerkleTree_init fr txs))"
proof -
  let ?leaves = "map (create_leaf_node fr) txs"
  have ne: "txs \<noteq> []" using assms by auto
  have len: "length ?leaves = 2 ^ k" using assms by simp
  have mem: "\<exists>n\<in>set ?leaves. node_hash n = node_hash (?leaves ! i)"
    using assms(2) by (auto intro!: bexI [of _ "?leaves ! i"])
  from proof_loop_verifies [OF len mem, of "[]"]
  obtain items where items: "proof_loop [] (?leaves ! i) ?leaves = items"
    and fold: "fold verify_step items (node_hash (?leaves ! i)) =
                 node_hash (reduce_levels ?leaves ! 0)"
    by auto
  have gp: "get_proof (MerkleTree_init fr txs) (int i) = Inr items"
    using assms(2) ne items by (simp add: get_proof_def leaf_nodes_init py_getitem_def)
  have root: "get_root_hash (MerkleTree_init fr txs) = node_hash (reduce_levels ?leaves ! 0)"
    using ne by (simp add: get_root_hash_def MerkleTree_init_def build_tree_def Let_def)
  have leaf: "node_hash (?leaves ! i) = hash_data (json_dumps fr (txs ! i))"
    using assms(2) by (simp add: create_leaf_node_def Let_def)
  show ?thesis
    using gp root fold leaf by (simp add: verify_proof_def)
qed

section \<open>Proofs on a level with an odd number of nodes\<close>

lemma get_proof_012:
  "get_proof (MerkleTree_init fr [tx_i 0, tx_i 1, tx_i 2]) 2 =
     Inr [\<lparr>item_hash = ''7762548f35d0953b23c48e605b9e4314eea59d07a07442aa9fac2eb52a213c86'',
           position = ''left''\<rparr>]"
  by (simp add: get_proof_def leaf_nodes_init py_getitem_def create_leaf_node_def
        proof_loop.simps Let_def create_parent_node_def example_hashes)

lemma root_012:
  "get_root_hash (MerkleTree_init fr [tx_i 0, tx_i 1, tx_i 2]) =
     ''ce04db493349ac4cf83fb5fccd54ffd19bbeb367f9629824ed22ef742ed15fba''"
  by (simp add: get_root_hash_def MerkleTree_init_def build_tree_def tx_i_def
        reduce_levels.simps Let_def create_leaf_node_def create_parent_node_def
        example_hashes [unfolded tx_i_def])

text \<open>
  Claim C3 at the transactions \<^verbatim>\<open>[{"i": 0}, {"i": 1}, {"i": 2}]\<close> and index 2.
  The leaf level has three nodes and the last one is paired with itself when
  the tree is built.  \<^verbatim>\<open>get_proof\<close> finds no sibling at index 3 and adds
  nothing for that level, so the proof has the single item of the level
  above; \<^verbatim>\<open>verify_proof\<close> of the transaction against the tree's own root is
  false.
\<close>

theorem odd_level_proof_rejected:
  "get_proof (MerkleTree_init fr [tx_i 0, tx_i 1, tx_i 2]) 2 =
     Inr [\<lparr>item_hash = ''7762548f35d0953b23c48e605b9e4314eea59d07a07442aa9fac2eb52a213c86'',
           position = ''left''\<rparr>]
   \<and> get_root_hash (MerkleTree_init fr [tx_i 0, tx_i 1, tx_i 2]) =
       ''ce04db493349ac4cf83fb5fccd54ffd19bbeb367f9629824ed22ef742ed15fba''
   \<and> verify_proof fr (tx_i 2)
        [\<lparr>item_hash = ''7762548f35d0953b23c48e605b9e4314eea59d07a07442aa9fac2eb52a213c86'',
          position = ''left''\<rparr>]
        (get_root_hash (MerkleTree_init fr [tx_i 0, tx_i 1, tx_i 2])) = False"
  by (simp add: get_proof_012 root_012 verify_proof_def verify_step_def example_hashes)

section \<open>Blocks and their wire dictionaries\<close>

lemma to_dict_Block_init:
  "to_dict (Block_init fr i ts txs p v em mr) =
     \<lparr>d_block_index = Some i, d_timestamp = Some ts, d_transactions = Some txs,
      d_previous_hash = Some p,
      d_hash = Some (block_hash (Block_init fr i ts txs p v em mr)),
      d_validator = Some v, d_energy_metrics = Some em,
      d_merkle_root = Some (get_root_hash (MerkleTree_init fr txs))\<rparr>"
  by (simp add: to_dict_def Block_init_def post_init_def Let_def)

lemma Block_init_root_irrelevant:
  "Block_init fr i ts txs p v em (Some (get_root_hash (MerkleTree_init fr txs))) =
     Block_init fr i ts txs p v em mr"
  by (simp add: Block_init_def post_init_def Let_def)

lemma from_dict_object_to_dict:
  "from_dict_object fr k (to_dict (Block_init fr i ts txs p v em mr)) =
     Inr (\<lparr>attributes = Block_init fr i ts txs p v em mr, tree_id = k\<rparr>, Suc k)"
  by (simp add: to_dict_Block_init from_dict_object_def dict_item_def new_Block_def
        Block_init_root_irrelevant)

lemma Block_init_tree:
  "merkle_tree (Block_init fr i ts txs p v em mr) = Some (MerkleTree_init fr txs)"
  by (simp add: Block_init_def post_init_def Let_def)

text \<open>
  Claim C7, as amended.  Let \<open>B\<close> be a block as the constructor builds it,
  its tree being object number \<open>k\<close>.  \<^verbatim>\<open>from_dict(to_dict(B))\<close> returns without
  error a block with the value of \<open>B\<close> in every field, a rebuilt tree of the
  same contents included, and its \<^verbatim>\<open>hash\<close> and \<^verbatim>\<open>merkle_root\<close> are those of
  \<open>B\<close>.  The rebuilt tree is a new object, so that
  \<^verbatim>\<open>from_dict(to_dict(B)) == B\<close> is false.
\<close>

theorem round_trip_reproduces_fields:
  "new_Block fr k i ts txs p v em mr =
     (\<lparr>attributes = Block_init fr i ts txs p v em mr, tree_id = k\<rparr>, Suc k)
   \<and> from_dict_object fr (Suc k) (to_dict (Block_init fr i ts txs p v em mr)) =
       Inr (\<lparr>attributes = Block_init fr i ts txs p v em mr, tree_id = Suc k\<rparr>, Suc (Suc k))
   \<and> map_sum id (\<lambda>r. block_hash (attributes (fst r)))
         (from_dict_object fr (Suc k) (to_dict (Block_init fr i ts txs p v em mr))) =
       Inr (block_hash (Block_init fr i ts txs p v em mr))
   \<and> map_sum id (\<lambda>r. merkle_root (attributes (fst r)))
         (from_dict_object fr (Suc k) (to_dict (Block_init fr i ts txs p v em mr))) =
       Inr (merkle_root (Block_init fr i ts txs p v em mr))
   \<and> \<not> dataclass_eq
         \<lparr>attributes = Block_init fr i ts txs p v em mr, tree_id = Suc k\<rparr>
         \<lparr>attributes = Block_init fr i ts txs p v em mr, tree_id = k\<rparr>"
proof -
  have built: "new_Block fr k i ts txs p v em mr =
      (\<lparr>attributes = Block_init fr i ts txs p v em mr, tree_id = k\<rparr>, Suc k)"
    by (simp add: new_Block_def)
  have round_trip: "from_dict_object fr (Suc k) (to_dict (Block_init fr i ts txs p v em mr)) =
      Inr (\<lparr>attributes = Block_init fr i ts txs p v em mr, tree_id = Suc k\<rparr>, Suc (Suc k))"
    by (rule from_dict_object_to_dict)
  have differ: "\<not> dataclass_eq
         \<lparr>attributes = Block_init fr i ts txs p v em mr, tree_id = Suc k\<rparr>
         \<lparr>attributes = Block_init fr i ts txs p v em mr, tree_id = k\<rparr>"
    by (simp add: dataclass_eq_def same_tree_def Block_init_tree)
  show ?thesis
    unfolding round_trip using built differ by simp
qed

text \<open>
  Claim C7 as stated fails at the block that \<^verbatim>\<open>b\<close> seals at time 105 over the
  transaction \<^verbatim>\<open>{"i": 0}\<close>, built as the first object: the round trip returns
  a block whose tree is the second object, and \<^verbatim>\<open>==\<close> of the two blocks is
  false.
\<close>

theorem round_trip_not_equal_counterexample:
  "from_dict_object repr_whole 1 (to_dict block_b) =
     Inr (\<lparr>attributes = block_b, tree_id = 1\<rparr>, 2)
   \<and> new_Block repr_whole 0 1 (Finite 105) [tx_i 0] zero_hash ''b'' [] None =
       (\<lparr>attributes = block_b, tree_id = 0\<rparr>, 1)
   \<and> dataclass_eq \<lparr>attributes = block_b, tree_id = 1\<rparr> \<lparr>attributes = block_b, tree_id = 0\<rparr> = False"
  by (simp add: block_b_def from_dict_object_to_dict new_Block_def dataclass_eq_def
        same_tree_def Block_init_tree)

lemma from_dict_ignores_root:
  "from_dict fr (d\<lparr>d_merkle_root := m\<rparr>) = from_dict fr d"
  by (simp add: from_dict_def dict_item_def Block_init_def post_init_def Let_def
      split: option.splits)

text \<open>
  Claim C5 at \<open>tampered_dict\<close>.  The stored root is not the root of the
  transactions, and \<^verbatim>\<open>from_dict\<close> returns a block all the same:
  \<^verbatim>\<open>__post_init__\<close> overwrites the \<^verbatim>\<open>merkle_root\<close> that \<^verbatim>\<open>from_dict\<close> passed to
  the constructor with the rebuilt one, and nothing compares the two.
\<close>

theorem from_dict_accepts_wrong_root:
  "d_merkle_root tampered_dict \<noteq> Some (get_root_hash (MerkleTree_init repr_whole [tx_i 0]))
   \<and> from_dict repr_whole tampered_dict =
       Inr (Block_init repr_whole 1 (Finite 10) [tx_i 0] zero_hash ''a'' [] None)
   \<and> merkle_root (Block_init repr_whole 1 (Finite 10) [tx_i 0] zero_hash ''a'' [] None) =
       Some ''8f5bf818feb884eed8d7769f8e868044ad904f2fc936d54215b09f216ccfe644''"
  by (simp add: tampered_dict_def from_dict_def dict_item_def
        Block_init_def post_init_def Let_def get_root_hash_def MerkleTree_init_def
        build_tree_def reduce_levels.simps create_leaf_node_def leaf_hash_0 zero_hash_literal)

section \<open>The validator roster and the delegates\<close>

lemma roster_abc_fields:
  "delegates (roster_abc m) = [''a'', ''b'', ''c'']"
  "validators (roster_abc m) = [(''c'', 1000), (''a'', 1000), (''b'', 1000)]"
  "metrics (roster_abc m) = m"
  "liveness_threshold (roster_abc m) = 60"
  "block_time (roster_abc m) = 3"
  "energy_threshold (roster_abc m) = 5"
  "max_validators (roster_abc m) = 21"
  by (simp_all add: roster_abc_def DPoS_init_def add_validator_def update_delegates_def
        py_prefix_def Let_def)

lemma remove_validator_keeps_delegates:
  "delegates (fst (remove_validator d address)) = delegates d"
  by (simp add: remove_validator_def)

lemma update_stake_recomputes:
  "has_key (validators d) address \<Longrightarrow>
   fst (update_stake d now address s) =
     update_delegates (d\<lparr>validators := AList.update address s (validators d)\<rparr>) now True"
  by (simp add: update_stake_def Let_def)

text \<open>
  Claim C8 at the roster \<^verbatim>\<open>a\<close>, \<^verbatim>\<open>b\<close>, \<^verbatim>\<open>c\<close>.  \<^verbatim>\<open>remove_validator("a")\<close> deletes
  \<^verbatim>\<open>a\<close> from the validator mapping and leaves the delegates as they were:
  \<^verbatim>\<open>a\<close> is still a delegate and is still selected as the validator of the
  next block, whereas a recomputation would give \<^verbatim>\<open>b\<close>, \<^verbatim>\<open>c\<close>.
  (\<^verbatim>\<open>update_stake\<close> does force the recomputation: \<open>update_stake_recomputes\<close>.)
\<close>

theorem remove_validator_leaves_delegate:
  "remove_validator (roster_abc None) ''a'' =
     ((roster_abc None)\<lparr>validators := [(''c'', 1000), (''b'', 1000)]\<rparr>, True)
   \<and> delegates (fst (remove_validator (roster_abc None) ''a'')) = [''a'', ''b'', ''c'']
   \<and> delegates (update_delegates (fst (remove_validator (roster_abc None) ''a'')) 101 True)
       = [''b'', ''c'']
   \<and> get_current_validator (fst (remove_validator (roster_abc None) ''a'')) 101 (- 1)
       = Some ''a''"
  by (simp add: remove_validator_def has_key_def roster_abc_fields update_delegates_def
        py_prefix_def get_current_validator_def Let_def)

section \<open>Leader selection\<close>

lemma collect_live_filter: "collect_live live xs active = active @ filter live xs"
  by (induction xs arbitrary: active) simp_all

lemma get_current_validator_spec:
  "get_current_validator d now ref_index =
     (if delegates d = [] \<or> spec_active d now = [] then None
      else Some (spec_active d now
                   ! nat ((ref_index + 1) mod int (length (spec_active d now)))))"
  by (simp add: get_current_validator_def spec_active_def spec_live_delegates_def
        collect_live_filter Let_def split: option.splits)

lemma roster_abc_live:
  "is_live (roster_abc (Some (seen_at 100))) (seen_at 100) 110 ''a''"
  "is_live (roster_abc (Some (seen_at 100))) (seen_at 100) 110 ''b''"
  "is_live (roster_abc (Some (seen_at 100))) (seen_at 100) 110 ''c''"
  by (simp_all add: is_live_def seen_at_def roster_abc_fields)

lemma roster_abc_validator:
  "get_current_validator (roster_abc (Some (seen_at 100))) 110 r =
     Some ([''a'', ''b'', ''c''] ! nat ((r + 1) mod 3))"
  by (simp add: get_current_validator_def roster_abc_fields roster_abc_live Let_def)

text \<open>
  Claim C2.  \<^verbatim>\<open>get_current_validator\<close> returns none when there are no
  delegates or no live delegate, and otherwise the entry of the sorted list of
  live delegates at position \<open>(ref_index + 1) mod len\<close>.  With the roster
  \<^verbatim>\<open>a\<close>, \<^verbatim>\<open>b\<close>, \<^verbatim>\<open>c\<close>, all seen ten seconds ago, the reference indices
  \<open>-1, 0, 1, 2\<close> select \<^verbatim>\<open>a\<close>, \<^verbatim>\<open>b\<close>, \<^verbatim>\<open>c\<close>, \<^verbatim>\<open>a\<close>.
\<close>

theorem current_validator_rotation:
  "get_current_validator d now ref_index =
     (if delegates d = [] \<or> spec_active d now = [] then None
      else Some (spec_active d now
                   ! nat ((ref_index + 1) mod int (length (spec_active d now)))))
   \<and> get_current_validator (roster_abc (Some (seen_at 100))) 110 (- 1) = Some ''a''
   \<and> get_current_validator (roster_abc (Some (seen_at 100))) 110 0 = Some ''b''
   \<and> get_current_validator (roster_abc (Some (seen_at 100))) 110 1 = Some ''c''
   \<and> get_current_validator (roster_abc (Some (seen_at 100))) 110 2 = Some ''a''"
  using get_current_validator_spec [of d now ref_index]
  by (simp add: roster_abc_validator)

section \<open>Float comparisons and differences\<close>

lemma float_le_NaN: "float_le x NaN = False"
  by (cases x) simp_all

lemma float_lt_NaN: "float_lt x NaN = False"
  by (cases x) simp_all

lemma not_float_le: "x \<noteq> NaN \<Longrightarrow> y \<noteq> NaN \<Longrightarrow> (\<not> float_le x y) = float_gt x y"
  by (cases x; cases y) (auto simp: float_gt_def)

lemma not_float_gt: "x \<noteq> NaN \<Longrightarrow> y \<noteq> NaN \<Longrightarrow> (\<not> float_gt x y) = float_le x y"
  by (cases x; cases y) (auto simp: float_gt_def)

lemma float_abs_NaN: "float_abs x = NaN \<longleftrightarrow> x = NaN"
  by (cases x) simp_all

lemma round_double_not_NaN: "round_double x \<noteq> NaN"
  by (simp add: round_double_def Let_def)

lemma float_sub_Finite_not_NaN: "y \<noteq> NaN \<Longrightarrow> float_sub (Finite x) y \<noteq> NaN"
  by (cases y) (simp_all add: round_double_not_NaN)

text \<open>Rounding leaves a whole number below \<open>2 ^ 53\<close> as it is.\<close>

lemma round_double_whole:
  assumes "1 \<le> n" and "n < 2 ^ 53"
  shows "round_double (of_int n) = Finite (of_int n)"
proof -
  define a :: real where "a = of_int n"
  have a1: "1 \<le> a" and a2: "a < 2 ^ 53"
    using assms by (simp_all add: a_def)
  define k where "k = \<lfloor>log 2 a\<rfloor>"
  have "0 \<le> log 2 a" using a1 by simp
  then have k0: "0 \<le> k" by (simp add: k_def)
  have "log 2 a < 53"
    using a1 a2 by (simp add: log_less_iff)
  then have k52: "k \<le> 52" by (simp add: k_def floor_less_iff)
  define j where "j = nat (52 - k)"
  have e: "max k (- 1022) - 52 = - int j"
    using k0 k52 by (simp add: j_def)
  have two: "two_to (- int j) = 1 / 2 ^ j"
    by (cases "j = 0") (simp_all add: two_to_def)
  have q: "a / two_to (- int j) = of_int (n * 2 ^ j)"
    by (simp add: two a_def)
  have r: "round_half_even (of_int (n * 2 ^ j)) = n * 2 ^ j"
    unfolding round_half_even_def floor_of_int by simp
  have small: "\<not> 2 ^ 1024 - 2 ^ 970 \<le> \<bar>a\<bar>"
    using a1 a2 by simp
  have pos: "0 < a" "\<bar>a\<bar> = a" "sgn a = 1"
    using a1 by simp_all
  have "round_double a =
      Finite (sgn a * of_int (round_half_even (a / two_to (max k (- 1022) - 52)))
                * two_to (max k (- 1022) - 52))"
    using pos(1) small unfolding round_double_def Let_def pos(2) k_def by simp
  also have "\<dots> = Finite (of_int (n * 2 ^ j) * two_to (- int j))"
    unfolding e q r pos(3) by simp
  also have "of_int (n * 2 ^ j) * two_to (- int j) = a"
    by (simp add: two a_def)
  finally show ?thesis by (simp add: a_def)
qed

lemma round_double_100: "round_double 100 = Finite 100"
  using round_double_whole [of 100] by simp

lemma round_double_1: "round_double 1 = Finite 1"
  using round_double_whole [of 1] by simp

text \<open>
  A difference that is not a double is rounded: \<^verbatim>\<open>1700000000.0 - 2 ** -30\<close> is
  \<^verbatim>\<open>1700000000.0\<close>.
\<close>

lemma floor_log2:
  assumes "2 ^ k \<le> a" and "a < 2 ^ Suc k"
  shows "\<lfloor>log 2 a\<rfloor> = int k"
proof -
  have "(0::real) < 2 ^ k" by simp
  then have pos: "0 < a" using assms(1) by linarith
  have "real k \<le> log 2 a"
    using assms(1) pos by (simp add: le_log_iff powr_realpow)
  moreover have "log 2 a < real k + 1"
    using assms(2) pos by (simp add: log_less_iff powr_realpow powr_add)
  ultimately show ?thesis by (simp add: floor_eq_iff)
qed

lemma float_sub_rounds:
  "float_sub (Finite 1700000000) (Finite (1 / 2 ^ 30)) = Finite 1700000000"
proof -
  define a :: real where "a = 1700000000 - 1 / 2 ^ 30"
  have k: "\<lfloor>log 2 a\<rfloor> = 30"
    using floor_log2 [of 30 a] by (simp add: a_def)
  have q: "a / two_to (- 22) = 1700000000 * 2 ^ 22 - 1 / 2 ^ 8"
    by (simp add: two_to_def a_def)
  have fl: "\<lfloor>1700000000 * 2 ^ 22 - 1 / (2::real) ^ 8\<rfloor> = 1700000000 * 2 ^ 22 - 1"
    by (simp add: floor_eq_iff)
  have r: "round_half_even (1700000000 * 2 ^ 22 - 1 / 2 ^ 8) = 1700000000 * 2 ^ 22"
    unfolding round_half_even_def fl by simp
  have pos: "0 < a" "\<bar>a\<bar> = a" "sgn a = 1"
    by (simp_all add: a_def)
  have small: "\<not> 2 ^ 1024 - 2 ^ 970 \<le> a"
    by (simp add: a_def)
  have "round_double a =
      Finite (sgn a * of_int (round_half_even (a / two_to (- 22))) * two_to (- 22))"
    using pos(1) small unfolding round_double_def Let_def pos(2) k by simp
  also have "\<dots> = Finite 1700000000"
    unfolding q r pos(3) by (simp add: two_to_def)
  finally show ?thesis by (simp add: a_def)
qed

section \<open>Block validation\<close>

lemma init_tree_facts:
  "get_leaf_count (MerkleTree_init fr txs) = length txs"
  "length (get_transaction_hashes (MerkleTree_init fr txs)) = length txs"
  by (simp_all add: get_leaf_count_def get_transaction_hashes_def leaf_nodes_init)

lemma single_root:
  "get_root_hash (MerkleTree_init fr [tx_i 0]) =
     ''8f5bf818feb884eed8d7769f8e868044ad904f2fc936d54215b09f216ccfe644''"
  by (simp add: get_root_hash_def MerkleTree_init_def build_tree_def reduce_levels.simps
        create_leaf_node_def leaf_hash_0)

text \<open>
  Claim C1, as amended.  For a block that carries the Merkle tree which its
  constructor built over its transactions, and when none of the block's
  timestamp, the power usage and the difference of the previous timestamp and
  the tolerance is NaN, \<^verbatim>\<open>validate_block\<close> returns true exactly when
  the validator is a delegate, is the current validator for the previous
  index, the timestamp exceeds the previous one less the tolerance, the index
  exceeds the previous one, the timestamp is within \<open>block_time\<close> of the
  clock, the Merkle root is present, non-empty and equal to the rebuilt root
  with as many leaves as transactions, and the power usage does not exceed
  the threshold.  The comparisons and the differences are those of floats.
  \<open>t_select\<close> and \<open>t_now\<close> are the two clock readings of the call.
\<close>

theorem validate_block_iff:
  assumes "merkle_tree b = Some (MerkleTree_init fr (transactions b))"
    and "timestamp b \<noteq> NaN" and "pu \<noteq> NaN" and "float_sub prev_ts tol \<noteq> NaN"
  shows "validate_block d t_select t_now b pu prev_ts prev_index tol
     \<longleftrightarrow>
       validator b \<in> set (delegates d)
     \<and> Some (validator b) = get_current_validator d t_select prev_index
     \<and> float_gt (timestamp b) (float_sub prev_ts tol)
     \<and> block_index b > prev_index
     \<and> float_le (float_abs (float_sub (Finite t_now) (timestamp b))) (Finite (block_time d))
     \<and> (merkle_root b \<noteq> None \<and> merkle_root b \<noteq> Some []
        \<and> merkle_root b = Some (get_root_hash (MerkleTree_init fr (transactions b)))
        \<and> length (transactions b) = get_leaf_count (MerkleTree_init fr (transactions b)))
     \<and> float_le pu (Finite (energy_threshold d))"
proof -
  have m: "validate_merkle_tree b \<longleftrightarrow>
      (merkle_root b \<noteq> None \<and> merkle_root b \<noteq> Some []
        \<and> merkle_root b = Some (get_root_hash (MerkleTree_init fr (transactions b)))
        \<and> length (transactions b) = get_leaf_count (MerkleTree_init fr (transactions b)))"
    using assms(1)
    by (auto simp: validate_merkle_tree_def block_transaction_hashes_def init_tree_facts Let_def)
  have order: "(\<not> float_le (timestamp b) (float_sub prev_ts tol)) =
      float_gt (timestamp b) (float_sub prev_ts tol)"
    using assms(2,4) by (rule not_float_le)
  have "float_abs (float_sub (Finite t_now) (timestamp b)) \<noteq> NaN"
    using assms(2) by (simp add: float_abs_NaN float_sub_Finite_not_NaN)
  then have window: "(\<not> float_gt (float_abs (float_sub (Finite t_now) (timestamp b)))
        (Finite (block_time d))) =
      float_le (float_abs (float_sub (Finite t_now) (timestamp b))) (Finite (block_time d))"
    by (simp add: not_float_gt)
  have energy: "(\<not> float_gt pu (Finite (energy_threshold d))) =
      float_le pu (Finite (energy_threshold d))"
    using assms(3) by (simp add: not_float_gt)
  show ?thesis
    unfolding validate_block_def m using order window energy by auto
qed

lemma block_b_fields:
  "validator block_b = ''b''" "timestamp block_b = Finite 105" "block_index block_b = 1"
  "transactions block_b = [tx_i 0]"
  "merkle_tree block_b = Some (MerkleTree_init repr_whole [tx_i 0])"
  "merkle_root block_b =
     Some ''8f5bf818feb884eed8d7769f8e868044ad904f2fc936d54215b09f216ccfe644''"
  by (simp_all add: block_b_def Block_init_def post_init_def Let_def single_root)

lemma nan_block_fields:
  "validator nan_block = ''b''" "timestamp nan_block = NaN" "block_index nan_block = 1"
  "transactions nan_block = [tx_i 0]"
  "merkle_tree nan_block = Some (MerkleTree_init repr_whole [tx_i 0])"
  "merkle_root nan_block =
     Some ''8f5bf818feb884eed8d7769f8e868044ad904f2fc936d54215b09f216ccfe644''"
  by (simp_all add: nan_block_def Block_init_def post_init_def Let_def single_root)

theorem validate_block_iff_witness:
  "merkle_tree block_b = Some (MerkleTree_init repr_whole (transactions block_b))
   \<and> timestamp block_b \<noteq> NaN \<and> Finite 1 \<noteq> NaN
   \<and> float_sub (Finite 100) (Finite 0) \<noteq> NaN
   \<and> validate_block (roster_abc (Some (seen_at 100))) 110 106 block_b (Finite 1)
       (Finite 100) 0 (Finite 0)"
  using validate_block_iff
    [where b = block_b and fr = repr_whole and d = "roster_abc (Some (seen_at 100))"
       and t_select = 110 and t_now = 106 and pu = "Finite 1" and prev_ts = "Finite 100"
       and prev_index = 0 and tol = "Finite 0"]
  by (simp add: block_b_fields roster_abc_fields roster_abc_validator init_tree_facts
        single_root round_double_100 round_double_1 float_gt_def)

text \<open>
  Claim C1 as stated fails at a block whose timestamp is NaN.  With the
  roster \<^verbatim>\<open>a\<close>, \<^verbatim>\<open>b\<close>, \<^verbatim>\<open>c\<close>, the previous block at index 0 and time 100 and
  the clock at 106, \<^verbatim>\<open>validate_block\<close> returns true for \<open>nan_block\<close>: every
  comparison with NaN is false, so neither the test
  \<^verbatim>\<open>block.timestamp <= previous_block_timestamp - sync_tolerance\<close> nor the test
  \<^verbatim>\<open>abs(current_time - block.timestamp) > self.block_time\<close> rejects it.  Yet
  the timestamp does not exceed the previous one, and it is not within
  \<open>block_time\<close> of the clock.
\<close>

theorem nan_timestamp_counterexample:
  "validate_block (roster_abc (Some (seen_at 100))) 110 106 nan_block (Finite 1)
       (Finite 100) 0 (Finite 0)
   \<and> \<not> float_gt (timestamp nan_block) (float_sub (Finite 100) (Finite 0))
   \<and> \<not> float_le (float_abs (float_sub (Finite 106) (timestamp nan_block)))
          (Finite (block_time (roster_abc (Some (seen_at 100)))))"
  by (simp add: validate_block_def nan_block_fields roster_abc_fields roster_abc_validator
        validate_merkle_tree_def block_transaction_hashes_def init_tree_facts single_root
        float_gt_def float_lt_NaN float_le_NaN Let_def)

section \<open>The proposer without a live delegate\<close>

lemma step_without_validator:
  "get_current_validator (dpos n) (now_select env)
     (if blocks n = [] then - 1 else block_index (last (blocks n))) = None \<Longrightarrow>
   process_transactions_step fr n env = Inl AttributeError"
  by (simp add: process_transactions_step_def Let_def)

lemma step_yields_to_other_validator:
  "get_current_validator (dpos n) (now_select env)
     (if blocks n = [] then - 1 else block_index (last (blocks n))) = Some cv \<Longrightarrow>
   py_lower (py_strip cv) \<noteq> py_lower (py_strip (node_id n)) \<Longrightarrow>
   process_transactions_step fr n env = Inr n"
  by (simp add: process_transactions_step_def Let_def)

lemma roster_abc_stale:
  "\<not> is_live (roster_abc (Some (seen_at 100))) (seen_at 100) 1000 ''a''"
  "\<not> is_live (roster_abc (Some (seen_at 100))) (seen_at 100) 1000 ''b''"
  "\<not> is_live (roster_abc (Some (seen_at 100))) (seen_at 100) 1000 ''c''"
  by (simp_all add: is_live_def seen_at_def roster_abc_fields)

text \<open>
  Claim C6 at \<open>stale_node\<close>.  No delegate is live, \<^verbatim>\<open>get_current_validator\<close>
  returns \<^verbatim>\<open>None\<close>, and the pass of the proposer loop does not yield: the debug
  line that calls \<^verbatim>\<open>current_validator.strip()\<close> raises \<^verbatim>\<open>AttributeError\<close>,
  which leaves the loop.
\<close>

theorem proposer_raises_without_live_delegate:
  "get_current_validator (dpos stale_node) (now_select late_env) (- 1) = None
   \<and> process_transactions_step repr_whole stale_node late_env = Inl AttributeError"
  by (simp add: process_transactions_step_def stale_node_def late_env_def
        get_current_validator_def roster_abc_fields roster_abc_stale Let_def)

section \<open>The serialization that is hashed\<close>

lemma insort_key_keeps_key:
  assumes "\<And>y. fst (g y) = fst y"
  shows "insort_key fst (g x) (map g xs) = map g (insort_key fst x xs)"
  by (induction xs) (simp_all add: assms)

lemma sort_key_keeps_key:
  assumes "\<And>y. fst (g y) = fst y"
  shows "sort_key fst (map g xs) = map g (sort_key fst xs)"
  by (induction xs) (simp_all add: insort_key_keeps_key [OF assms])

lemma sort_key_map_prod:
  "sort_key fst (map (map_prod id f) xs) = map (map_prod id f) (sort_key fst xs)"
  by (rule sort_key_keeps_key) simp

lemma json_encode_sorted:
  "json_encode fr True isep ksep v = json_encode fr False isep ksep (sort_keys_deep v)"
proof (induction v)
  case (JArray vs)
  then show ?case by (simp cong: map_cong)
next
  case (JObject kvs)
  have item: "map_prod id (json_encode fr True isep ksep) kv =
        map_prod id (json_encode fr False isep ksep) (map_prod id sort_keys_deep kv)"
    if "kv \<in> set kvs" for kv
    using JObject [OF that] by (cases kv) simp
  have "map (map_prod id (json_encode fr True isep ksep)) (sort_key fst kvs) =
        map (map_prod id (json_encode fr False isep ksep))
          (map (map_prod id sort_keys_deep) (sort_key fst kvs))"
    unfolding map_map by (rule map_cong [OF refl]) (simp add: item)
  then show ?case
    by (simp only: json_encode.simps sort_keys_deep.simps sort_key_map_prod
          if_True if_False id_apply)
qed simp_all

lemma keys_sorted_deep: "keys_sorted (sort_keys_deep v)"
proof (induction v)
  case (JArray vs)
  then show ?case by (simp add: list_all_iff)
next
  case (JObject kvs)
  have "sorted (map fst (sort_key fst (map (map_prod id sort_keys_deep) kvs)))"
    by (rule sorted_sort_key)
  moreover have "list_all (\<lambda>kv. keys_sorted (snd kv))
        (sort_key fst (map (map_prod id sort_keys_deep) kvs))"
    using JObject by (auto simp: list_all_iff)
  ultimately show ?case by simp
qed simp_all

text \<open>
  Claim C4, as amended.  The leaf hash of a transaction and the hash of a
  block are the SHA-256 hex digest of the text that lists the items of every
  object, at every nesting level, in the order of their keys, with \<^verbatim>\<open>", "\<close>
  between items and \<^verbatim>\<open>": "\<close> between a key and its value (the default
  separators of \<^verbatim>\<open>json.dumps\<close>, one space each).
\<close>

theorem hashed_text_sorted_keys:
  "node_hash (create_leaf_node fr tx) =
     sha256_hexdigest (json_encode fr False '', '' '': '' (sort_keys_deep tx))
   \<and> calculate_hash fr b =
     sha256_hexdigest (json_encode fr False '', '' '': '' (sort_keys_deep (block_header b)))
   \<and> keys_sorted (sort_keys_deep tx)
   \<and> keys_sorted (sort_keys_deep (block_header b))"
  by (simp add: create_leaf_node_def calculate_hash_def hash_data_def json_dumps_def
        json_encode_sorted [symmetric] keys_sorted_deep Let_def)

text \<open>
  Claim C4 as stated fails on the whitespace: the text that is hashed for
  \<^verbatim>\<open>{"b": 1, "a": 2}\<close> has a space after the comma and after each colon, so
  it is not the specification's canonical form, and the leaf hash of
  \<^verbatim>\<open>{"i": 0}\<close> is not the digest of its canonical form.
\<close>

theorem whitespace_counterexample:
  "json_dumps repr_whole (JObject [(''b'', JInt 1), (''a'', JInt 2)]) =
     ''{'' @ [CHR 0x22] @ ''a'' @ [CHR 0x22] @ '': 2, '' @ [CHR 0x22] @ ''b'' @ [CHR 0x22]
       @ '': 1}''
   \<and> json_dumps repr_whole (JObject [(''b'', JInt 1), (''a'', JInt 2)])
       \<noteq> spec_canonical_json repr_whole (JObject [(''b'', JInt 1), (''a'', JInt 2)])
   \<and> node_hash (create_leaf_node repr_whole (tx_i 0))
       \<noteq> hash_data (spec_canonical_json repr_whole (tx_i 0))"
  by (simp add: dumps_ba canonical_ba create_leaf_node_def leaf_hash_0 compact_leaf_hash_0)

end
